theory Spec2Isabelle
  imports Complex_Main "HOL-Library.Word"
begin

unbundle bit_operations_syntax

section \<open>Command and monitoring module of chronyd (cmdmon.c)\<close>

text \<open>
  The development embeds \<^verbatim>\<open>cmdmon.c\<close>: the table of permissions, the handlers of the
  commands and the dispatcher \<^verbatim>\<open>read_from_cmd_socket\<close>. Everything the module takes from
  other files of the daemon (\<^verbatim>\<open>candm.h\<close>, \<^verbatim>\<open>pktlength.c\<close>, \<^verbatim>\<open>util.c\<close>, \<^verbatim>\<open>addrfilt.c\<close> and the
  modules the handlers call) is a field of a record of parameters, so every theorem holds
  for whatever these files define.

  Integers of the packets are kept in host order: \<^verbatim>\<open>htons\<close>, \<^verbatim>\<open>htonl\<close>, \<^verbatim>\<open>ntohs\<close> and
  \<^verbatim>\<open>ntohl\<close> are the identity on the header fields of the records below. The payload of a
  request is the byte array of the union \<^verbatim>\<open>data\<close>, read at the offset of the field that
  the code names, so that two fields of the union at one offset are one object.
\<close>

subsection \<open>Machine types\<close>

type_synonym u8 = "8 word"
type_synonym u16 = "16 word"
type_synonym u32 = "32 word"

text \<open>A C \<^verbatim>\<open>double\<close>; the module only passes such values on.\<close>
type_synonym double = real

text \<open>The wire form of a float (\<^verbatim>\<open>Float\<close>) and \<^verbatim>\<open>struct timeval\<close>.\<close>
type_synonym Float = u32

record timeval =
  tv_sec :: int
  tv_usec :: int

subsection \<open>Addresses\<close>

text \<open>\<^verbatim>\<open>IPAddr\<close>: a family tag and the address of that family.\<close>
datatype IPAddr = IPADDR_UNSPEC | IPADDR_INET4 u32 | IPADDR_INET6 "u8 list"

definition INADDR_LOOPBACK :: u32 where
  "INADDR_LOOPBACK = 0x7f000001"

definition in6addr_loopback :: "u8 list" where
  "in6addr_loopback = [0,0,0,0, 0,0,0,0, 0,0,0,0, 0,0,0,1]"

text \<open>\<^verbatim>\<open>union sockaddr_all\<close>: the family the kernel wrote and the bytes after it.\<close>
datatype sa_family_t = AF_INET | AF_INET6 | AF_UNIX | AF_OTHER nat

record sockaddr_all =
  sa_family :: sa_family_t
  sa_data :: "u8 list"

subsection \<open>Packets\<close>

text \<open>The status codes and the reply types that the module writes.\<close>
datatype STT =
    STT_SUCCESS | STT_FAILED | STT_UNAUTH | STT_INVALID | STT_NOSUCHSOURCE
  | STT_NOTENABLED | STT_BADSUBNET | STT_ACCESSALLOWED | STT_ACCESSDENIED
  | STT_SOURCEALREADYKNOWN | STT_TOOMANYSOURCES | STT_NORTC | STT_BADRTCFILE
  | STT_INACTIVE | STT_BADSAMPLE | STT_INVALIDAF | STT_BADPKTVERSION | STT_BADPKTLENGTH

datatype RPY =
    RPY_NULL | RPY_N_SOURCES | RPY_SOURCE_DATA | RPY_MANUAL_TIMESTAMP | RPY_TRACKING
  | RPY_SOURCESTATS | RPY_RTC | RPY_CLIENT_ACCESSES_BY_INDEX | RPY_MANUAL_LIST
  | RPY_ACTIVITY | RPY_SMOOTHING

text \<open>
  A field of the union of a request or of a reply is named as the code names it, member
  and field: \<^verbatim>\<open>rx_message->data.online.mask\<close> is the field \<open>''online.mask''\<close>. An element
  of an array of the reply has its index between the two.
\<close>
type_synonym req_field = string

datatype rpy_field = Fld string | Arr string nat string

text \<open>\<^verbatim>\<open>CMD_Request\<close>: the header and the bytes of the union.\<close>
record CMD_Request =
  version :: u8
  pkt_type :: u8
  res1 :: u8
  res2 :: u8
  command :: u16
  attempt :: u16
  sequence :: u32
  data :: "nat \<Rightarrow> u8"

text \<open>
  The values a handler stores in the union of a reply, and the fields it stores them in.
  A field that was never written is absent from the store: the buffer is a local variable
  of the dispatcher that is not cleared.
\<close>
datatype val =
    V16 u16 | V32 u32 | VFloat Float | VIPAddr "u8 list" | VTimeval "u8 list"

text \<open>\<^verbatim>\<open>CMD_Reply\<close>.\<close>
record CMD_Reply =
  reply_version :: u8
  reply_pkt_type :: u8
  reply_res1 :: u8
  reply_res2 :: u8
  reply_command :: u16
  reply :: RPY
  status :: STT
  pad1 :: u16
  pad2 :: u16
  pad3 :: u16
  reply_sequence :: u32
  pad4 :: u32
  pad5 :: u32
  reply_data :: "rpy_field \<rightharpoonup> val"

subsection \<open>What the module takes from the rest of the daemon\<close>

text \<open>
  \<^verbatim>\<open>candm.h\<close> is not among the sources: the value of a macro and the offset of a field are
  parameters, asked for by name. \<open>macro\<close> gives the macros used as numbers,
  \<open>offsetof\<close> the offset of \<^verbatim>\<open>data\<close> in the two packets (\<open>''CMD_Request.data''\<close>,
  \<open>''CMD_Reply.data''\<close>) and the offset of a field inside the union of a request.
\<close>
record candm_h =
  macro :: "string \<Rightarrow> nat"
  offsetof :: "string \<Rightarrow> nat"

text \<open>\<^verbatim>\<open>pktlength.c\<close>: the lengths are sums of sizes, and so natural numbers.\<close>
record pktlength =
  PKL_CommandLength :: "CMD_Request \<Rightarrow> nat"
  PKL_CommandPaddingLength :: "CMD_Request \<Rightarrow> nat"
  PKL_ReplyLength :: "CMD_Reply \<Rightarrow> nat"

text \<open>
  \<^verbatim>\<open>util.c\<close>. The conversions from the network take the bytes of the union and the offset
  of the object they convert.
\<close>
record util =
  UTI_SockaddrToIPAndPort :: "sockaddr_all \<Rightarrow> IPAddr \<times> u16"
  UTI_IPNetworkToHost :: "(nat \<Rightarrow> u8) \<Rightarrow> nat \<Rightarrow> IPAddr"
  UTI_IPHostToNetwork :: "IPAddr \<Rightarrow> u8 list"
  UTI_FloatNetworkToHost :: "Float \<Rightarrow> double"
  UTI_FloatHostToNetwork :: "double \<Rightarrow> Float"
  UTI_TimevalNetworkToHost :: "(nat \<Rightarrow> u8) \<Rightarrow> nat \<Rightarrow> timeval"
  UTI_TimevalHostToNetwork :: "timeval \<Rightarrow> u8 list"

text \<open>\<^verbatim>\<open>addrfilt.c\<close>, on a table of type \<open>'t\<close>.\<close>
datatype ADF_Status = ADF_SUCCESS | ADF_BADSUBNET

record 't addrfilt =
  ADF_Allow :: "'t \<Rightarrow> IPAddr \<Rightarrow> u32 \<Rightarrow> ADF_Status \<times> 't"
  ADF_AllowAll :: "'t \<Rightarrow> IPAddr \<Rightarrow> u32 \<Rightarrow> ADF_Status \<times> 't"
  ADF_Deny :: "'t \<Rightarrow> IPAddr \<Rightarrow> u32 \<Rightarrow> ADF_Status \<times> 't"
  ADF_DenyAll :: "'t \<Rightarrow> IPAddr \<Rightarrow> u32 \<Rightarrow> ADF_Status \<times> 't"
  ADF_IsAllowed :: "'t \<Rightarrow> IPAddr \<Rightarrow> bool"

text \<open>The reports of \<^verbatim>\<open>reports.h\<close> that the handlers copy into a reply.\<close>
datatype RPT_State =
  RPT_SYNC | RPT_UNREACH | RPT_FALSETICKER | RPT_JITTERY | RPT_CANDIDATE | RPT_OUTLIER
datatype RPT_Mode = RPT_NTP_CLIENT | RPT_NTP_PEER | RPT_LOCAL_REFERENCE
datatype RPT_Option = RPT_NORMAL | RPT_PREFER | RPT_NOSELECT

record RPT_SourceReport =
  sr_ip_addr :: IPAddr
  sr_stratum :: int
  sr_poll :: int
  sr_state :: RPT_State
  sr_mode :: RPT_Mode
  sr_sel_option :: RPT_Option
  sr_reachability :: int
  sr_latest_meas_ago :: int
  sr_orig_latest_meas :: double
  sr_latest_meas :: double
  sr_latest_meas_err :: double

record RPT_TrackingReport =
  tr_ref_id :: u32
  tr_ip_addr :: IPAddr
  tr_stratum :: int
  tr_leap_status :: int
  tr_ref_time :: timeval
  tr_current_correction :: double
  tr_last_offset :: double
  tr_rms_offset :: double
  tr_freq_ppm :: double
  tr_resid_freq_ppm :: double
  tr_skew_ppm :: double
  tr_root_delay :: double
  tr_root_dispersion :: double
  tr_last_update_interval :: double

record RPT_SourcestatsReport =
  ss_ref_id :: u32
  ss_ip_addr :: IPAddr
  ss_n_samples :: int
  ss_n_runs :: int
  ss_span_seconds :: int
  ss_resid_freq_ppm :: double
  ss_skew_ppm :: double
  ss_sd :: double
  ss_est_offset :: double
  ss_est_offset_err :: double

record RPT_RTC_Report =
  rtc_ref_time :: timeval
  rtc_n_samples :: int
  rtc_n_runs :: int
  rtc_span_seconds :: int
  rtc_seconds_fast :: double
  rtc_gain_rate_ppm :: double

record RPT_SmoothingReport =
  smt_active :: bool
  smt_leap_only :: bool
  smt_offset :: double
  smt_freq_ppm :: double
  smt_wander_ppm :: double
  smt_last_update_ago :: double
  smt_remaining_time :: double

record RPT_ClientAccessByIndex_Report =
  ca_ip_addr :: IPAddr
  ca_client_hits :: int
  ca_peer_hits :: int
  ca_cmd_hits_auth :: int
  ca_cmd_hits_normal :: int
  ca_cmd_hits_bad :: int
  ca_last_ntp_hit_ago :: int
  ca_last_cmd_hit_ago :: int

record RPT_ManualSamplesReport =
  ms_when :: timeval
  ms_slewed_offset :: double
  ms_orig_offset :: double
  ms_residual :: double

record RPT_ActivityReport =
  act_online :: int
  act_offline :: int
  act_burst_online :: int
  act_burst_offline :: int
  act_unresolved :: int

text \<open>
  The results of the calls into the other modules. A C \<^verbatim>\<open>int\<close> tested as a truth value
  is a \<open>bool\<close>; a function that fills a report and returns whether it did gives an
  option. An argument read with \<^verbatim>\<open>ntohl\<close> stays the 32-bit word it is.
\<close>
datatype NSR_Status =
  NSR_Success | NSR_NoSuchSource | NSR_AlreadyInUse | NSR_TooManySources | NSR_InvalidAF
datatype NTP_Source_Type = NTP_SERVER | NTP_PEER
datatype SRC_Type = SRC_NTP | SRC_REFCLOCK
datatype SRC_SelectOption = SRC_SelectNormal | SRC_SelectPrefer | SRC_SelectNoselect
datatype RTC_Status = RTC_ST_OK | RTC_ST_NODRV | RTC_ST_BADFILE
datatype CLG_Status = CLG_SUCCESS | CLG_INDEXTOOLARGE | CLG_INACTIVE | CLG_OTHER
datatype CLG_Command = CLG_CMD_NORMAL | CLG_CMD_BAD_PKT

record SourceParameters =
  minpoll :: u32
  maxpoll :: u32
  presend_minpoll :: u32
  authkey :: u32
  online :: bool
  auto_offline :: bool
  iburst :: bool
  sel_option :: SRC_SelectOption
  max_delay :: double
  max_delay_ratio :: double

record ntp_sources =
  NSR_TakeSourcesOnline :: "IPAddr \<Rightarrow> IPAddr \<Rightarrow> bool"
  NSR_TakeSourcesOffline :: "IPAddr \<Rightarrow> IPAddr \<Rightarrow> bool"
  NSR_InitiateSampleBurst :: "u32 \<Rightarrow> u32 \<Rightarrow> IPAddr \<Rightarrow> IPAddr \<Rightarrow> bool"
  NSR_ModifyMinpoll :: "IPAddr \<Rightarrow> u32 \<Rightarrow> bool"
  NSR_ModifyMaxpoll :: "IPAddr \<Rightarrow> u32 \<Rightarrow> bool"
  NSR_ModifyMaxdelay :: "IPAddr \<Rightarrow> double \<Rightarrow> bool"
  NSR_ModifyMaxdelayratio :: "IPAddr \<Rightarrow> double \<Rightarrow> bool"
  NSR_ModifyMaxdelaydevratio :: "IPAddr \<Rightarrow> double \<Rightarrow> bool"
  NSR_ModifyMinstratum :: "IPAddr \<Rightarrow> u32 \<Rightarrow> bool"
  NSR_ModifyPolltarget :: "IPAddr \<Rightarrow> u32 \<Rightarrow> bool"
  NSR_AddSource :: "IPAddr \<times> u16 \<Rightarrow> NTP_Source_Type \<Rightarrow> SourceParameters \<Rightarrow> NSR_Status"
  NSR_RemoveSource :: "IPAddr \<times> u16 \<Rightarrow> NSR_Status"
  NSR_ReportSource :: "RPT_SourceReport \<Rightarrow> timeval \<Rightarrow> RPT_SourceReport"
  NSR_GetActivityReport :: RPT_ActivityReport

record sources =
  SRC_ReadNumberOfSources :: int
  SRC_ReportSource :: "u32 \<Rightarrow> timeval \<Rightarrow> RPT_SourceReport option"
  SRC_GetType :: "u32 \<Rightarrow> SRC_Type"
  SRC_ReportSourcestats :: "u32 \<Rightarrow> timeval \<Rightarrow> RPT_SourcestatsReport option"
  RCL_ReportSource :: "RPT_SourceReport \<Rightarrow> timeval \<Rightarrow> RPT_SourceReport"
  REF_GetTrackingReport :: RPT_TrackingReport
  NCR_AddAccessRestriction :: "IPAddr \<Rightarrow> u32 \<Rightarrow> bool \<Rightarrow> bool \<Rightarrow> bool"
  NCR_CheckAccessRestriction :: "IPAddr \<Rightarrow> bool"

record clocks =
  MNL_IsEnabled :: bool
  MNL_AcceptTimestamp :: "timeval \<Rightarrow> (int \<times> double \<times> double) option"
  MNL_ReportSamples :: "RPT_ManualSamplesReport list"
  MNL_DeleteSample :: "u32 \<Rightarrow> bool"
  LCL_MakeStep :: bool
  RTC_WriteParameters :: RTC_Status
  RTC_GetReport :: "RPT_RTC_Report option"
  RTC_Trim :: bool
  SMT_IsEnabled :: bool
  SMT_GetSmoothingReport :: "timeval \<Rightarrow> RPT_SmoothingReport option"
  CLG_GetClientAccessReportByIndex ::
    "u32 \<Rightarrow> int \<Rightarrow> CLG_Status \<times> RPT_ClientAccessByIndex_Report \<times> u32"
  SCH_GetLastEventTime :: "timeval \<times> timeval"

text \<open>
  All of it together, with the size of \<^verbatim>\<open>union sockaddr_all\<close> and of its family field
  that the system headers give.
\<close>
record 't env =
  candm :: candm_h
  pkl :: pktlength
  uti :: util
  adf :: "'t addrfilt"
  nsr :: ntp_sources
  src :: sources
  clk :: clocks
  sizeof_where_from :: nat
  sizeof_sa_family :: nat

subsection \<open>The state a handler works on\<close>

text \<open>
  A handler gets the request and a pointer to the reply. Its calls into the other modules
  are recorded in order, each with the name of the function and its arguments; the calls
  of \<^verbatim>\<open>LOG\<close>, \<^verbatim>\<open>DEBUG_LOG\<close> and \<^verbatim>\<open>SCH_GetLastEventTime\<close> are not. \<open>access_auth_table\<close> is
  the static table of the module, and \<open>failed_assert\<close> says that an \<^verbatim>\<open>assert\<close> stopped the
  process.
\<close>
datatype arg =
    AIP IPAddr | A32 u32 | A16 u16 | AInt int | ADouble double | ATimeval timeval
  | ABool bool | AType NTP_Source_Type | AParams SourceParameters

type_synonym call = "string \<times> arg list"

record 't hstate =
  tx_message :: CMD_Reply
  calls :: "call list"
  access_auth_table :: 't
  failed_assert :: bool

definition call :: "string \<Rightarrow> arg list \<Rightarrow> 't hstate \<Rightarrow> 't hstate" where
  "call f args h = h\<lparr>calls := calls h @ [(f, args)]\<rparr>"

definition tx_status :: "STT \<Rightarrow> 't hstate \<Rightarrow> 't hstate" where
  "tx_status s h = h\<lparr>tx_message := (tx_message h)\<lparr>status := s\<rparr>\<rparr>"

definition tx_reply :: "RPY \<Rightarrow> 't hstate \<Rightarrow> 't hstate" where
  "tx_reply r h = h\<lparr>tx_message := (tx_message h)\<lparr>reply := r\<rparr>\<rparr>"

definition tx_store :: "rpy_field \<Rightarrow> val \<Rightarrow> 't hstate \<Rightarrow> 't hstate" where
  "tx_store f v h =
     h\<lparr>tx_message := (tx_message h)\<lparr>reply_data := (reply_data (tx_message h))(f \<mapsto> v)\<rparr>\<rparr>"

definition assert_0 :: "'t hstate \<Rightarrow> 't hstate" where
  "assert_0 h = h\<lparr>failed_assert := True\<rparr>"

text \<open>Reading a field of the union of the request.\<close>
definition ntohl_at :: "(nat \<Rightarrow> u8) \<Rightarrow> nat \<Rightarrow> u32" where
  "ntohl_at d off =
     push_bit 24 (ucast (d off)) OR push_bit 16 (ucast (d (off + 1)))
       OR push_bit 8 (ucast (d (off + 2))) OR ucast (d (off + 3))"

definition rx_u32 :: "'t env \<Rightarrow> CMD_Request \<Rightarrow> req_field \<Rightarrow> u32" where
  "rx_u32 E rx_message f = ntohl_at (data rx_message) (offsetof (candm E) f)"

definition rx_IPAddr :: "'t env \<Rightarrow> CMD_Request \<Rightarrow> req_field \<Rightarrow> IPAddr" where
  "rx_IPAddr E rx_message f =
     UTI_IPNetworkToHost (uti E) (data rx_message) (offsetof (candm E) f)"

definition rx_Float :: "'t env \<Rightarrow> CMD_Request \<Rightarrow> req_field \<Rightarrow> double" where
  "rx_Float E rx_message f = UTI_FloatNetworkToHost (uti E) (rx_u32 E rx_message f)"

definition rx_Timeval :: "'t env \<Rightarrow> CMD_Request \<Rightarrow> req_field \<Rightarrow> timeval" where
  "rx_Timeval E rx_message f =
     UTI_TimevalNetworkToHost (uti E) (data rx_message) (offsetof (candm E) f)"

text \<open>Writing a field of the union of the reply.\<close>
definition htons_int :: "int \<Rightarrow> val" where
  "htons_int x = V16 (word_of_int x)"

definition htonl_int :: "int \<Rightarrow> val" where
  "htonl_int x = V32 (word_of_int x)"

definition Float_val :: "'t env \<Rightarrow> double \<Rightarrow> val" where
  "Float_val E x = VFloat (UTI_FloatHostToNetwork (uti E) x)"

definition IPAddr_val :: "'t env \<Rightarrow> IPAddr \<Rightarrow> val" where
  "IPAddr_val E a = VIPAddr (UTI_IPHostToNetwork (uti E) a)"

definition Timeval_val :: "'t env \<Rightarrow> timeval \<Rightarrow> val" where
  "Timeval_val E t = VTimeval (UTI_TimevalHostToNetwork (uti E) t)"

definition macro32 :: "'t env \<Rightarrow> string \<Rightarrow> u32" where
  "macro32 E name = of_nat (macro (candm E) name)"

subsection \<open>The handlers\<close>

definition handle_dump :: "'t env \<Rightarrow> CMD_Request \<Rightarrow> 't hstate \<Rightarrow> 't hstate" where
  "handle_dump E rx_message h = call ''SRC_DumpSources'' [] h"

definition handle_online :: "'t env \<Rightarrow> CMD_Request \<Rightarrow> 't hstate \<Rightarrow> 't hstate" where
  "handle_online E rx_message h =
     (let mask = rx_IPAddr E rx_message ''online.mask'';
          address = rx_IPAddr E rx_message ''online.address'';
          h = call ''NSR_TakeSourcesOnline'' [AIP mask, AIP address] h
      in if \<not> NSR_TakeSourcesOnline (nsr E) mask address
         then tx_status STT_NOSUCHSOURCE h else h)"

definition handle_offline :: "'t env \<Rightarrow> CMD_Request \<Rightarrow> 't hstate \<Rightarrow> 't hstate" where
  "handle_offline E rx_message h =
     (let mask = rx_IPAddr E rx_message ''offline.mask'';
          address = rx_IPAddr E rx_message ''offline.address'';
          h = call ''NSR_TakeSourcesOffline'' [AIP mask, AIP address] h
      in if \<not> NSR_TakeSourcesOffline (nsr E) mask address
         then tx_status STT_NOSUCHSOURCE h else h)"

definition handle_burst :: "'t env \<Rightarrow> CMD_Request \<Rightarrow> 't hstate \<Rightarrow> 't hstate" where
  "handle_burst E rx_message h =
     (let mask = rx_IPAddr E rx_message ''burst.mask'';
          address = rx_IPAddr E rx_message ''burst.address'';
          n_good = rx_u32 E rx_message ''burst.n_good_samples'';
          n_total = rx_u32 E rx_message ''burst.n_total_samples'';
          h = call ''NSR_InitiateSampleBurst'' [A32 n_good, A32 n_total, AIP mask, AIP address] h
      in if \<not> NSR_InitiateSampleBurst (nsr E) n_good n_total mask address
         then tx_status STT_NOSUCHSOURCE h else h)"

definition handle_modify_minpoll :: "'t env \<Rightarrow> CMD_Request \<Rightarrow> 't hstate \<Rightarrow> 't hstate" where
  "handle_modify_minpoll E rx_message h =
     (let address = rx_IPAddr E rx_message ''modify_minpoll.address'';
          v = rx_u32 E rx_message ''modify_minpoll.new_minpoll'';
          h = call ''NSR_ModifyMinpoll'' [AIP address, A32 v] h
      in if \<not> NSR_ModifyMinpoll (nsr E) address v
         then tx_status STT_NOSUCHSOURCE h else h)"

definition handle_modify_maxpoll :: "'t env \<Rightarrow> CMD_Request \<Rightarrow> 't hstate \<Rightarrow> 't hstate" where
  "handle_modify_maxpoll E rx_message h =
     (let address = rx_IPAddr E rx_message ''modify_minpoll.address'';
          v = rx_u32 E rx_message ''modify_minpoll.new_minpoll'';
          h = call ''NSR_ModifyMaxpoll'' [AIP address, A32 v] h
      in if \<not> NSR_ModifyMaxpoll (nsr E) address v
         then tx_status STT_NOSUCHSOURCE h else h)"

definition handle_modify_maxdelay :: "'t env \<Rightarrow> CMD_Request \<Rightarrow> 't hstate \<Rightarrow> 't hstate" where
  "handle_modify_maxdelay E rx_message h =
     (let address = rx_IPAddr E rx_message ''modify_maxdelay.address'';
          v = rx_Float E rx_message ''modify_maxdelay.new_max_delay'';
          h = call ''NSR_ModifyMaxdelay'' [AIP address, ADouble v] h
      in if \<not> NSR_ModifyMaxdelay (nsr E) address v
         then tx_status STT_NOSUCHSOURCE h else h)"

definition handle_modify_maxdelayratio ::
  "'t env \<Rightarrow> CMD_Request \<Rightarrow> 't hstate \<Rightarrow> 't hstate" where
  "handle_modify_maxdelayratio E rx_message h =
     (let address = rx_IPAddr E rx_message ''modify_maxdelayratio.address'';
          v = rx_Float E rx_message ''modify_maxdelayratio.new_max_delay_ratio'';
          h = call ''NSR_ModifyMaxdelayratio'' [AIP address, ADouble v] h
      in if \<not> NSR_ModifyMaxdelayratio (nsr E) address v
         then tx_status STT_NOSUCHSOURCE h else h)"

definition handle_modify_maxdelaydevratio ::
  "'t env \<Rightarrow> CMD_Request \<Rightarrow> 't hstate \<Rightarrow> 't hstate" where
  "handle_modify_maxdelaydevratio E rx_message h =
     (let address = rx_IPAddr E rx_message ''modify_maxdelaydevratio.address'';
          v = rx_Float E rx_message ''modify_maxdelaydevratio.new_max_delay_dev_ratio'';
          h = call ''NSR_ModifyMaxdelaydevratio'' [AIP address, ADouble v] h
      in if \<not> NSR_ModifyMaxdelaydevratio (nsr E) address v
         then tx_status STT_NOSUCHSOURCE h else h)"

definition handle_modify_minstratum ::
  "'t env \<Rightarrow> CMD_Request \<Rightarrow> 't hstate \<Rightarrow> 't hstate" where
  "handle_modify_minstratum E rx_message h =
     (let address = rx_IPAddr E rx_message ''modify_minpoll.address'';
          v = rx_u32 E rx_message ''modify_minstratum.new_min_stratum'';
          h = call ''NSR_ModifyMinstratum'' [AIP address, A32 v] h
      in if \<not> NSR_ModifyMinstratum (nsr E) address v
         then tx_status STT_NOSUCHSOURCE h else h)"

definition handle_modify_polltarget ::
  "'t env \<Rightarrow> CMD_Request \<Rightarrow> 't hstate \<Rightarrow> 't hstate" where
  "handle_modify_polltarget E rx_message h =
     (let address = rx_IPAddr E rx_message ''modify_polltarget.address'';
          v = rx_u32 E rx_message ''modify_polltarget.new_poll_target'';
          h = call ''NSR_ModifyPolltarget'' [AIP address, A32 v] h
      in if \<not> NSR_ModifyPolltarget (nsr E) address v
         then tx_status STT_NOSUCHSOURCE h else h)"

definition handle_modify_maxupdateskew ::
  "'t env \<Rightarrow> CMD_Request \<Rightarrow> 't hstate \<Rightarrow> 't hstate" where
  "handle_modify_maxupdateskew E rx_message h =
     call ''REF_ModifyMaxupdateskew''
       [ADouble (rx_Float E rx_message ''modify_maxupdateskew.new_max_update_skew'')] h"

definition handle_modify_makestep ::
  "'t env \<Rightarrow> CMD_Request \<Rightarrow> 't hstate \<Rightarrow> 't hstate" where
  "handle_modify_makestep E rx_message h =
     call ''REF_ModifyMakestep''
       [A32 (rx_u32 E rx_message ''modify_makestep.limit''),
        ADouble (rx_Float E rx_message ''modify_makestep.threshold'')] h"

definition handle_settime :: "'t env \<Rightarrow> CMD_Request \<Rightarrow> 't hstate \<Rightarrow> 't hstate" where
  "handle_settime E rx_message h =
     (let ts = rx_Timeval E rx_message ''settime.ts'';
          h = call ''MNL_IsEnabled'' [] h
      in if \<not> MNL_IsEnabled (clk E) then tx_status STT_NOTENABLED h
         else
           (let h = call ''MNL_AcceptTimestamp'' [ATimeval ts] h
            in case MNL_AcceptTimestamp (clk E) ts of
                 Some (offset_cs, dfreq_ppm, new_afreq_ppm) \<Rightarrow>
                   tx_store (Fld ''manual_timestamp.new_afreq_ppm'') (Float_val E new_afreq_ppm)
                    (tx_store (Fld ''manual_timestamp.dfreq_ppm'') (Float_val E dfreq_ppm)
                     (tx_store (Fld ''manual_timestamp.centiseconds'') (htonl_int offset_cs)
                      (tx_reply RPY_MANUAL_TIMESTAMP h)))
               | None \<Rightarrow> tx_status STT_FAILED h))"

definition handle_local :: "'t env \<Rightarrow> CMD_Request \<Rightarrow> 't hstate \<Rightarrow> 't hstate" where
  "handle_local E rx_message h =
     (let on_off = rx_u32 E rx_message ''local.on_off''
      in if on_off \<noteq> 0
         then call ''REF_EnableLocal'' [A32 (rx_u32 E rx_message ''local.stratum'')] h
         else call ''REF_DisableLocal'' [] h)"

definition handle_manual :: "'t env \<Rightarrow> CMD_Request \<Rightarrow> 't hstate \<Rightarrow> 't hstate" where
  "handle_manual E rx_message h =
     (let option = rx_u32 E rx_message ''manual.option''
      in if option = 0 then call ''MNL_Disable'' [] h
         else if option = 1 then call ''MNL_Enable'' [] h
         else if option = 2 then call ''MNL_Reset'' [] h
         else tx_status STT_INVALID h)"

definition handle_n_sources :: "'t env \<Rightarrow> CMD_Request \<Rightarrow> 't hstate \<Rightarrow> 't hstate" where
  "handle_n_sources E rx_message h =
     (let n_sources = SRC_ReadNumberOfSources (src E);
          h = call ''SRC_ReadNumberOfSources'' [] h
      in tx_store (Fld ''n_sources.n_sources'') (htonl_int n_sources)
           (tx_reply RPY_N_SOURCES h))"

text \<open>A run of assignments to fields of the reply, in the order of the code.\<close>
definition tx_stores :: "(rpy_field \<times> val) list \<Rightarrow> 't hstate \<Rightarrow> 't hstate" where
  "tx_stores fvs h = fold (\<lambda>(f, v). tx_store f v) fvs h"

definition macro16 :: "'t env \<Rightarrow> string \<Rightarrow> val" where
  "macro16 E name = V16 (of_nat (macro (candm E) name))"

definition handle_source_data :: "'t env \<Rightarrow> CMD_Request \<Rightarrow> 't hstate \<Rightarrow> 't hstate" where
  "handle_source_data E rx_message h =
     (let now_corr = fst (SCH_GetLastEventTime (clk E));
          index = rx_u32 E rx_message ''source_data.index'';
          h = call ''SRC_ReportSource'' [A32 index, ATimeval now_corr] h
      in case SRC_ReportSource (src E) index now_corr of
           Some report0 \<Rightarrow>
             (let h = call ''SRC_GetType'' [A32 index] h;
                  (report, h) =
                    (case SRC_GetType (src E) index of
                       SRC_NTP \<Rightarrow> (NSR_ReportSource (nsr E) report0 now_corr,
                                    call ''NSR_ReportSource'' [ATimeval now_corr] h)
                     | SRC_REFCLOCK \<Rightarrow> (RCL_ReportSource (src E) report0 now_corr,
                                    call ''RCL_ReportSource'' [ATimeval now_corr] h))
              in tx_stores
                   [(Fld ''source_data.ip_addr'', IPAddr_val E (sr_ip_addr report)),
                    (Fld ''source_data.stratum'', htons_int (sr_stratum report)),
                    (Fld ''source_data.poll'', htons_int (sr_poll report)),
                    (Fld ''source_data.state'',
                       (case sr_state report of
                          RPT_SYNC \<Rightarrow> macro16 E ''RPY_SD_ST_SYNC''
                        | RPT_UNREACH \<Rightarrow> macro16 E ''RPY_SD_ST_UNREACH''
                        | RPT_FALSETICKER \<Rightarrow> macro16 E ''RPY_SD_ST_FALSETICKER''
                        | RPT_JITTERY \<Rightarrow> macro16 E ''RPY_SD_ST_JITTERY''
                        | RPT_CANDIDATE \<Rightarrow> macro16 E ''RPY_SD_ST_CANDIDATE''
                        | RPT_OUTLIER \<Rightarrow> macro16 E ''RPY_SD_ST_OUTLIER'')),
                    (Fld ''source_data.mode'',
                       (case sr_mode report of
                          RPT_NTP_CLIENT \<Rightarrow> macro16 E ''RPY_SD_MD_CLIENT''
                        | RPT_NTP_PEER \<Rightarrow> macro16 E ''RPY_SD_MD_PEER''
                        | RPT_LOCAL_REFERENCE \<Rightarrow> macro16 E ''RPY_SD_MD_REF'')),
                    (Fld ''source_data.flags'',
                       (case sr_sel_option report of
                          RPT_NORMAL \<Rightarrow> V16 0
                        | RPT_PREFER \<Rightarrow> macro16 E ''RPY_SD_FLAG_PREFER''
                        | RPT_NOSELECT \<Rightarrow> macro16 E ''RPY_SD_FLAG_NOSELECT'')),
                    (Fld ''source_data.reachability'', htons_int (sr_reachability report)),
                    (Fld ''source_data.since_sample'', htonl_int (sr_latest_meas_ago report)),
                    (Fld ''source_data.orig_latest_meas'',
                       Float_val E (sr_orig_latest_meas report)),
                    (Fld ''source_data.latest_meas'', Float_val E (sr_latest_meas report)),
                    (Fld ''source_data.latest_meas_err'',
                       Float_val E (sr_latest_meas_err report))]
                   (tx_reply RPY_SOURCE_DATA h))
         | None \<Rightarrow> tx_status STT_NOSUCHSOURCE h)"

definition handle_rekey :: "'t env \<Rightarrow> CMD_Request \<Rightarrow> 't hstate \<Rightarrow> 't hstate" where
  "handle_rekey E rx_message h = call ''KEY_Reload'' [] h"

definition handle_allowdeny ::
  "'t env \<Rightarrow> CMD_Request \<Rightarrow> bool \<Rightarrow> bool \<Rightarrow> 't hstate \<Rightarrow> 't hstate" where
  "handle_allowdeny E rx_message allow all h =
     (let ip = rx_IPAddr E rx_message ''allow_deny.ip'';
          subnet_bits = rx_u32 E rx_message ''allow_deny.subnet_bits'';
          h = call ''NCR_AddAccessRestriction'' [AIP ip, A32 subnet_bits, ABool allow, ABool all] h
      in if \<not> NCR_AddAccessRestriction (src E) ip subnet_bits allow all
         then tx_status STT_BADSUBNET h else h)"

text \<open>
  \<^verbatim>\<open>CAM_AddAccessRestriction\<close> and \<^verbatim>\<open>CAM_CheckAccessRestriction\<close>, the two functions of the
  module on its own table.
\<close>
definition CAM_AddAccessRestriction ::
  "'t env \<Rightarrow> IPAddr \<Rightarrow> u32 \<Rightarrow> bool \<Rightarrow> bool \<Rightarrow> 't hstate \<Rightarrow> bool \<times> 't hstate" where
  "CAM_AddAccessRestriction E ip_addr subnet_bits allow all h =
     (let f = (if allow then (if all then ''ADF_AllowAll'' else ''ADF_Allow'')
               else (if all then ''ADF_DenyAll'' else ''ADF_Deny''));
          (status, t) =
            (if allow
             then (if all then ADF_AllowAll (adf E) (access_auth_table h) ip_addr subnet_bits
                   else ADF_Allow (adf E) (access_auth_table h) ip_addr subnet_bits)
             else (if all then ADF_DenyAll (adf E) (access_auth_table h) ip_addr subnet_bits
                   else ADF_Deny (adf E) (access_auth_table h) ip_addr subnet_bits));
          h = (call f [AIP ip_addr, A32 subnet_bits] h)\<lparr>access_auth_table := t\<rparr>
      in if status = ADF_BADSUBNET then (False, h)
         else if status = ADF_SUCCESS then (True, h)
         else (False, h))"

definition CAM_CheckAccessRestriction :: "'t env \<Rightarrow> IPAddr \<Rightarrow> 't hstate \<Rightarrow> bool" where
  "CAM_CheckAccessRestriction E ip_addr h =
     ADF_IsAllowed (adf E) (access_auth_table h) ip_addr"

definition handle_cmdallowdeny ::
  "'t env \<Rightarrow> CMD_Request \<Rightarrow> bool \<Rightarrow> bool \<Rightarrow> 't hstate \<Rightarrow> 't hstate" where
  "handle_cmdallowdeny E rx_message allow all h =
     (let ip = rx_IPAddr E rx_message ''allow_deny.ip'';
          subnet_bits = rx_u32 E rx_message ''allow_deny.subnet_bits'';
          (ok, h) = CAM_AddAccessRestriction E ip subnet_bits allow all h
      in if \<not> ok then tx_status STT_BADSUBNET h else h)"

definition handle_accheck :: "'t env \<Rightarrow> CMD_Request \<Rightarrow> 't hstate \<Rightarrow> 't hstate" where
  "handle_accheck E rx_message h =
     (let ip = rx_IPAddr E rx_message ''ac_check.ip'';
          h = call ''NCR_CheckAccessRestriction'' [AIP ip] h
      in if NCR_CheckAccessRestriction (src E) ip
         then tx_status STT_ACCESSALLOWED h
         else tx_status STT_ACCESSDENIED h)"

definition handle_cmdaccheck :: "'t env \<Rightarrow> CMD_Request \<Rightarrow> 't hstate \<Rightarrow> 't hstate" where
  "handle_cmdaccheck E rx_message h =
     (let ip = rx_IPAddr E rx_message ''ac_check.ip'';
          ok = CAM_CheckAccessRestriction E ip h;
          h = call ''ADF_IsAllowed'' [AIP ip] h
      in if ok then tx_status STT_ACCESSALLOWED h
         else tx_status STT_ACCESSDENIED h)"

text \<open>
  \<^verbatim>\<open>handle_add_source\<close>. The parameters that the protocol does not carry are constants of
  other headers and are left out of \<open>SourceParameters\<close>.
\<close>
definition handle_add_source ::
  "'t env \<Rightarrow> NTP_Source_Type \<Rightarrow> CMD_Request \<Rightarrow> 't hstate \<Rightarrow> 't hstate" where
  "handle_add_source E type rx_message h =
     (let rem_addr = (rx_IPAddr E rx_message ''ntp_source.ip_addr'',
                      (ucast (rx_u32 E rx_message ''ntp_source.port'') :: u16));
          flags = rx_u32 E rx_message ''ntp_source.flags'';
          params = \<lparr>
            minpoll = rx_u32 E rx_message ''ntp_source.minpoll'',
            maxpoll = rx_u32 E rx_message ''ntp_source.maxpoll'',
            presend_minpoll = rx_u32 E rx_message ''ntp_source.presend_minpoll'',
            authkey = rx_u32 E rx_message ''ntp_source.authkey'',
            online = (flags AND macro32 E ''REQ_ADDSRC_ONLINE'' \<noteq> 0),
            auto_offline = (flags AND macro32 E ''REQ_ADDSRC_AUTOOFFLINE'' \<noteq> 0),
            iburst = (flags AND macro32 E ''REQ_ADDSRC_IBURST'' \<noteq> 0),
            sel_option =
              (if flags AND macro32 E ''REQ_ADDSRC_PREFER'' \<noteq> 0 then SRC_SelectPrefer
               else if flags AND macro32 E ''REQ_ADDSRC_NOSELECT'' \<noteq> 0 then SRC_SelectNoselect
               else SRC_SelectNormal),
            max_delay = rx_Float E rx_message ''ntp_source.max_delay'',
            max_delay_ratio = rx_Float E rx_message ''ntp_source.max_delay_ratio''\<rparr>;
          h = call ''NSR_AddSource'' [AIP (fst rem_addr), A16 (snd rem_addr), AType type,
                                      AParams params] h
      in case NSR_AddSource (nsr E) rem_addr type params of
           NSR_Success \<Rightarrow> h
         | NSR_AlreadyInUse \<Rightarrow> tx_status STT_SOURCEALREADYKNOWN h
         | NSR_TooManySources \<Rightarrow> tx_status STT_TOOMANYSOURCES h
         | NSR_InvalidAF \<Rightarrow> tx_status STT_INVALIDAF h
         | NSR_NoSuchSource \<Rightarrow> assert_0 h)"

definition handle_del_source :: "'t env \<Rightarrow> CMD_Request \<Rightarrow> 't hstate \<Rightarrow> 't hstate" where
  "handle_del_source E rx_message h =
     (let rem_addr = (rx_IPAddr E rx_message ''del_source.ip_addr'', (0 :: u16));
          h = call ''NSR_RemoveSource'' [AIP (fst rem_addr), A16 (snd rem_addr)] h
      in case NSR_RemoveSource (nsr E) rem_addr of
           NSR_Success \<Rightarrow> h
         | NSR_NoSuchSource \<Rightarrow> tx_status STT_NOSUCHSOURCE h
         | NSR_TooManySources \<Rightarrow> assert_0 h
         | NSR_AlreadyInUse \<Rightarrow> assert_0 h
         | NSR_InvalidAF \<Rightarrow> assert_0 h)"

definition handle_writertc :: "'t env \<Rightarrow> CMD_Request \<Rightarrow> 't hstate \<Rightarrow> 't hstate" where
  "handle_writertc E rx_message h =
     (let h = call ''RTC_WriteParameters'' [] h
      in case RTC_WriteParameters (clk E) of
           RTC_ST_OK \<Rightarrow> h
         | RTC_ST_NODRV \<Rightarrow> tx_status STT_NORTC h
         | RTC_ST_BADFILE \<Rightarrow> tx_status STT_BADRTCFILE h)"

definition handle_dfreq :: "'t env \<Rightarrow> CMD_Request \<Rightarrow> 't hstate \<Rightarrow> 't hstate" where
  "handle_dfreq E rx_message h =
     (let dfreq = rx_Float E rx_message ''dfreq.dfreq''
      in call ''LCL_AccumulateDeltaFrequency'' [ADouble (dfreq * (1 / 1000000))] h)"

definition handle_doffset :: "'t env \<Rightarrow> CMD_Request \<Rightarrow> 't hstate \<Rightarrow> 't hstate" where
  "handle_doffset E rx_message h =
     (let sec = sint (rx_u32 E rx_message ''doffset.sec'');
          usec = sint (rx_u32 E rx_message ''doffset.usec'');
          doffset = real_of_int sec + (1 / 1000000) * real_of_int usec
      in call ''LCL_AccumulateOffset'' [ADouble doffset, ADouble 0] h)"

definition handle_tracking :: "'t env \<Rightarrow> CMD_Request \<Rightarrow> 't hstate \<Rightarrow> 't hstate" where
  "handle_tracking E rx_message h =
     (let rpt = REF_GetTrackingReport (src E);
          h = call ''REF_GetTrackingReport'' [] h
      in tx_stores
           [(Fld ''tracking.ref_id'', V32 (tr_ref_id rpt)),
            (Fld ''tracking.ip_addr'', IPAddr_val E (tr_ip_addr rpt)),
            (Fld ''tracking.stratum'', htons_int (tr_stratum rpt)),
            (Fld ''tracking.leap_status'', htons_int (tr_leap_status rpt)),
            (Fld ''tracking.ref_time'', Timeval_val E (tr_ref_time rpt)),
            (Fld ''tracking.current_correction'', Float_val E (tr_current_correction rpt)),
            (Fld ''tracking.last_offset'', Float_val E (tr_last_offset rpt)),
            (Fld ''tracking.rms_offset'', Float_val E (tr_rms_offset rpt)),
            (Fld ''tracking.freq_ppm'', Float_val E (tr_freq_ppm rpt)),
            (Fld ''tracking.resid_freq_ppm'', Float_val E (tr_resid_freq_ppm rpt)),
            (Fld ''tracking.skew_ppm'', Float_val E (tr_skew_ppm rpt)),
            (Fld ''tracking.root_delay'', Float_val E (tr_root_delay rpt)),
            (Fld ''tracking.root_dispersion'', Float_val E (tr_root_dispersion rpt)),
            (Fld ''tracking.last_update_interval'',
               Float_val E (tr_last_update_interval rpt))]
           (tx_reply RPY_TRACKING h))"

definition handle_smoothing :: "'t env \<Rightarrow> CMD_Request \<Rightarrow> 't hstate \<Rightarrow> 't hstate" where
  "handle_smoothing E rx_message h =
     (let now = fst (SCH_GetLastEventTime (clk E));
          h = call ''SMT_GetSmoothingReport'' [ATimeval now] h
      in case SMT_GetSmoothingReport (clk E) now of
           None \<Rightarrow> tx_status STT_NOTENABLED h
         | Some report \<Rightarrow>
             tx_stores
               [(Fld ''smoothing.flags'',
                   V32 ((if smt_active report then macro32 E ''RPY_SMT_FLAG_ACTIVE'' else 0)
                        OR (if smt_leap_only report then macro32 E ''RPY_SMT_FLAG_LEAPONLY''
                            else 0))),
                (Fld ''smoothing.offset'', Float_val E (smt_offset report)),
                (Fld ''smoothing.freq_ppm'', Float_val E (smt_freq_ppm report)),
                (Fld ''smoothing.wander_ppm'', Float_val E (smt_wander_ppm report)),
                (Fld ''smoothing.last_update_ago'', Float_val E (smt_last_update_ago report)),
                (Fld ''smoothing.remaining_time'', Float_val E (smt_remaining_time report))]
               (tx_reply RPY_SMOOTHING h))"

definition handle_smoothtime :: "'t env \<Rightarrow> CMD_Request \<Rightarrow> 't hstate \<Rightarrow> 't hstate" where
  "handle_smoothtime E rx_message h =
     (let h = call ''SMT_IsEnabled'' [] h
      in if \<not> SMT_IsEnabled (clk E) then tx_status STT_NOTENABLED h
         else
           (let option = rx_u32 E rx_message ''smoothtime.option'';
                now = fst (SCH_GetLastEventTime (clk E))
            in if option = macro32 E ''REQ_SMOOTHTIME_RESET''
               then call ''SMT_Reset'' [ATimeval now] h
               else if option = macro32 E ''REQ_SMOOTHTIME_ACTIVATE''
               then call ''SMT_Activate'' [ATimeval now] h
               else tx_status STT_INVALID h))"

definition handle_sourcestats :: "'t env \<Rightarrow> CMD_Request \<Rightarrow> 't hstate \<Rightarrow> 't hstate" where
  "handle_sourcestats E rx_message h =
     (let now_corr = fst (SCH_GetLastEventTime (clk E));
          index = rx_u32 E rx_message ''sourcestats.index'';
          h = call ''SRC_ReportSourcestats'' [A32 index, ATimeval now_corr] h
      in case SRC_ReportSourcestats (src E) index now_corr of
           Some report \<Rightarrow>
             tx_stores
               [(Fld ''sourcestats.ref_id'', V32 (ss_ref_id report)),
                (Fld ''sourcestats.ip_addr'', IPAddr_val E (ss_ip_addr report)),
                (Fld ''sourcestats.n_samples'', htonl_int (ss_n_samples report)),
                (Fld ''sourcestats.n_runs'', htonl_int (ss_n_runs report)),
                (Fld ''sourcestats.span_seconds'', htonl_int (ss_span_seconds report)),
                (Fld ''sourcestats.resid_freq_ppm'', Float_val E (ss_resid_freq_ppm report)),
                (Fld ''sourcestats.skew_ppm'', Float_val E (ss_skew_ppm report)),
                (Fld ''sourcestats.sd'', Float_val E (ss_sd report)),
                (Fld ''sourcestats.est_offset'', Float_val E (ss_est_offset report)),
                (Fld ''sourcestats.est_offset_err'', Float_val E (ss_est_offset_err report))]
               (tx_reply RPY_SOURCESTATS h)
         | None \<Rightarrow> tx_status STT_NOSUCHSOURCE h)"

definition handle_rtcreport :: "'t env \<Rightarrow> CMD_Request \<Rightarrow> 't hstate \<Rightarrow> 't hstate" where
  "handle_rtcreport E rx_message h =
     (let h = call ''RTC_GetReport'' [] h
      in case RTC_GetReport (clk E) of
           Some report \<Rightarrow>
             tx_stores
               [(Fld ''rtc.ref_time'', Timeval_val E (rtc_ref_time report)),
                (Fld ''rtc.n_samples'', htons_int (rtc_n_samples report)),
                (Fld ''rtc.n_runs'', htons_int (rtc_n_runs report)),
                (Fld ''rtc.span_seconds'', htonl_int (rtc_span_seconds report)),
                (Fld ''rtc.rtc_seconds_fast'', Float_val E (rtc_seconds_fast report)),
                (Fld ''rtc.rtc_gain_rate_ppm'', Float_val E (rtc_gain_rate_ppm report))]
               (tx_reply RPY_RTC h)
         | None \<Rightarrow> tx_status STT_NORTC h)"

definition handle_trimrtc :: "'t env \<Rightarrow> CMD_Request \<Rightarrow> 't hstate \<Rightarrow> 't hstate" where
  "handle_trimrtc E rx_message h =
     (let h = call ''RTC_Trim'' [] h
      in if \<not> RTC_Trim (clk E) then tx_status STT_NORTC h else h)"

definition handle_cyclelogs :: "'t env \<Rightarrow> CMD_Request \<Rightarrow> 't hstate \<Rightarrow> 't hstate" where
  "handle_cyclelogs E rx_message h = call ''LOG_CycleLogFiles'' [] h"

text \<open>
  \<^verbatim>\<open>handle_client_accesses_by_index\<close>. The loop is the function below: \<open>i\<close> and \<open>j\<close> are
  the two counters, and the two assignments after the loop are its last branch. The index
  given to \<^verbatim>\<open>CLG_GetClientAccessReportByIndex\<close> and the one stored by \<^verbatim>\<open>htonl\<close> are the low
  32 bits of \<^verbatim>\<open>first_index + i\<close>.
\<close>
function client_accesses_loop ::
  "'t env \<Rightarrow> u32 \<Rightarrow> int \<Rightarrow> nat \<Rightarrow> nat \<Rightarrow> nat \<Rightarrow> 't hstate \<Rightarrow> 't hstate" where
  "client_accesses_loop E first_index now_sec n_indices i j h =
     (if i < n_indices then
        (case CLG_GetClientAccessReportByIndex (clk E) (first_index + of_nat i) now_sec of
           (result, report, n_indices_in_table) \<Rightarrow>
             (let h = tx_store (Fld ''client_accesses_by_index.n_indices'')
                        (V32 n_indices_in_table)
                        (call ''CLG_GetClientAccessReportByIndex''
                           [A32 (first_index + of_nat i), AInt now_sec] h)
              in case result of
                   CLG_SUCCESS \<Rightarrow>
                     client_accesses_loop E first_index now_sec n_indices (i + 1) (j + 1)
                       (tx_stores
                          [(Arr ''client_accesses_by_index.clients'' j ''ip'',
                              IPAddr_val E (ca_ip_addr report)),
                           (Arr ''client_accesses_by_index.clients'' j ''client_hits'',
                              htonl_int (ca_client_hits report)),
                           (Arr ''client_accesses_by_index.clients'' j ''peer_hits'',
                              htonl_int (ca_peer_hits report)),
                           (Arr ''client_accesses_by_index.clients'' j ''cmd_hits_auth'',
                              htonl_int (ca_cmd_hits_auth report)),
                           (Arr ''client_accesses_by_index.clients'' j ''cmd_hits_normal'',
                              htonl_int (ca_cmd_hits_normal report)),
                           (Arr ''client_accesses_by_index.clients'' j ''cmd_hits_bad'',
                              htonl_int (ca_cmd_hits_bad report)),
                           (Arr ''client_accesses_by_index.clients'' j ''last_ntp_hit_ago'',
                              htonl_int (ca_last_ntp_hit_ago report)),
                           (Arr ''client_accesses_by_index.clients'' j ''last_cmd_hit_ago'',
                              htonl_int (ca_last_cmd_hit_ago report))]
                          h)
                 | CLG_INDEXTOOLARGE \<Rightarrow>
                     client_accesses_loop E first_index now_sec n_indices (i + 1) j h
                 | CLG_INACTIVE \<Rightarrow> tx_status STT_INACTIVE h
                 | CLG_OTHER \<Rightarrow> assert_0 h))
      else
        tx_store (Fld ''client_accesses_by_index.n_clients'') (V32 (of_nat j))
          (tx_store (Fld ''client_accesses_by_index.next_index'')
             (V32 (first_index + of_nat i)) h))"
  by pat_completeness auto
termination
  by (relation "measure (\<lambda>(E, first_index, now_sec, n_indices, i, j, h). n_indices - i)") auto

declare client_accesses_loop.simps [simp del]

definition handle_client_accesses_by_index ::
  "'t env \<Rightarrow> CMD_Request \<Rightarrow> 't hstate \<Rightarrow> 't hstate" where
  "handle_client_accesses_by_index E rx_message h =
     (let now = fst (SCH_GetLastEventTime (clk E));
          first_index = rx_u32 E rx_message ''client_accesses_by_index.first_index'';
          n_indices = unat (rx_u32 E rx_message ''client_accesses_by_index.n_indices'');
          n_indices = (if n_indices > macro (candm E) ''MAX_CLIENT_ACCESSES''
                       then macro (candm E) ''MAX_CLIENT_ACCESSES'' else n_indices);
          h = tx_reply RPY_CLIENT_ACCESSES_BY_INDEX h
      in client_accesses_loop E first_index (tv_sec now) n_indices 0 0 h)"

definition handle_manual_list :: "'t env \<Rightarrow> CMD_Request \<Rightarrow> 't hstate \<Rightarrow> 't hstate" where
  "handle_manual_list E rx_message h =
     (let h = tx_reply RPY_MANUAL_LIST h;
          report = MNL_ReportSamples (clk E);
          n_samples = length report;
          h = call ''MNL_ReportSamples'' [] h;
          h = tx_store (Fld ''manual_list.n_samples'') (htonl_int (int n_samples)) h
      in tx_stores
           (concat (map (\<lambda>i.
              [(Arr ''manual_list.samples'' i ''when'', Timeval_val E (ms_when (report ! i))),
               (Arr ''manual_list.samples'' i ''slewed_offset'',
                  Float_val E (ms_slewed_offset (report ! i))),
               (Arr ''manual_list.samples'' i ''orig_offset'',
                  Float_val E (ms_orig_offset (report ! i))),
               (Arr ''manual_list.samples'' i ''residual'',
                  Float_val E (ms_residual (report ! i)))]) [0..<n_samples]))
           h)"

definition handle_manual_delete :: "'t env \<Rightarrow> CMD_Request \<Rightarrow> 't hstate \<Rightarrow> 't hstate" where
  "handle_manual_delete E rx_message h =
     (let index = rx_u32 E rx_message ''manual_delete.index'';
          h = call ''MNL_DeleteSample'' [A32 index] h
      in if \<not> MNL_DeleteSample (clk E) index then tx_status STT_BADSAMPLE h else h)"

definition handle_make_step :: "'t env \<Rightarrow> CMD_Request \<Rightarrow> 't hstate \<Rightarrow> 't hstate" where
  "handle_make_step E rx_message h =
     (let h = call ''LCL_MakeStep'' [] h
      in if \<not> LCL_MakeStep (clk E) then tx_status STT_FAILED h else h)"

definition handle_activity :: "'t env \<Rightarrow> CMD_Request \<Rightarrow> 't hstate \<Rightarrow> 't hstate" where
  "handle_activity E rx_message h =
     (let report = NSR_GetActivityReport (nsr E);
          h = call ''NSR_GetActivityReport'' [] h
      in tx_reply RPY_ACTIVITY
           (tx_stores
              [(Fld ''activity.online'', htonl_int (act_online report)),
               (Fld ''activity.offline'', htonl_int (act_offline report)),
               (Fld ''activity.burst_online'', htonl_int (act_burst_online report)),
               (Fld ''activity.burst_offline'', htonl_int (act_burst_offline report)),
               (Fld ''activity.unresolved'', htonl_int (act_unresolved report))]
              h))"

definition handle_reselect_distance ::
  "'t env \<Rightarrow> CMD_Request \<Rightarrow> 't hstate \<Rightarrow> 't hstate" where
  "handle_reselect_distance E rx_message h =
     (let dist = rx_Float E rx_message ''reselect_distance.distance''
      in call ''SRC_SetReselectDistance'' [ADouble dist] h)"

definition handle_reselect :: "'t env \<Rightarrow> CMD_Request \<Rightarrow> 't hstate \<Rightarrow> 't hstate" where
  "handle_reselect E rx_message h = call ''SRC_ReselectSource'' [] h"

definition handle_refresh :: "'t env \<Rightarrow> CMD_Request \<Rightarrow> 't hstate \<Rightarrow> 't hstate" where
  "handle_refresh E rx_message h = call ''NSR_RefreshAddresses'' [] h"

subsection \<open>The commands and their permissions\<close>

text \<open>
  The numbers of the commands are macros of \<^verbatim>\<open>candm.h\<close>. They are taken from the table
  of permissions, which is indexed by them and names the command of each row in a
  comment; \<^verbatim>\<open>CAM_Initialise\<close> asserts that \<^verbatim>\<open>N_REQUEST_TYPES\<close> is the number of rows.
\<close>
definition REQ_NULL :: nat where "REQ_NULL = 0"
definition REQ_ONLINE :: nat where "REQ_ONLINE = 1"
definition REQ_OFFLINE :: nat where "REQ_OFFLINE = 2"
definition REQ_BURST :: nat where "REQ_BURST = 3"
definition REQ_MODIFY_MINPOLL :: nat where "REQ_MODIFY_MINPOLL = 4"
definition REQ_MODIFY_MAXPOLL :: nat where "REQ_MODIFY_MAXPOLL = 5"
definition REQ_DUMP :: nat where "REQ_DUMP = 6"
definition REQ_MODIFY_MAXDELAY :: nat where "REQ_MODIFY_MAXDELAY = 7"
definition REQ_MODIFY_MAXDELAYRATIO :: nat where "REQ_MODIFY_MAXDELAYRATIO = 8"
definition REQ_MODIFY_MAXUPDATESKEW :: nat where "REQ_MODIFY_MAXUPDATESKEW = 9"
definition REQ_LOGON :: nat where "REQ_LOGON = 10"
definition REQ_SETTIME :: nat where "REQ_SETTIME = 11"
definition REQ_LOCAL :: nat where "REQ_LOCAL = 12"
definition REQ_MANUAL :: nat where "REQ_MANUAL = 13"
definition REQ_N_SOURCES :: nat where "REQ_N_SOURCES = 14"
definition REQ_SOURCE_DATA :: nat where "REQ_SOURCE_DATA = 15"
definition REQ_REKEY :: nat where "REQ_REKEY = 16"
definition REQ_ALLOW :: nat where "REQ_ALLOW = 17"
definition REQ_ALLOWALL :: nat where "REQ_ALLOWALL = 18"
definition REQ_DENY :: nat where "REQ_DENY = 19"
definition REQ_DENYALL :: nat where "REQ_DENYALL = 20"
definition REQ_CMDALLOW :: nat where "REQ_CMDALLOW = 21"
definition REQ_CMDALLOWALL :: nat where "REQ_CMDALLOWALL = 22"
definition REQ_CMDDENY :: nat where "REQ_CMDDENY = 23"
definition REQ_CMDDENYALL :: nat where "REQ_CMDDENYALL = 24"
definition REQ_ACCHECK :: nat where "REQ_ACCHECK = 25"
definition REQ_CMDACCHECK :: nat where "REQ_CMDACCHECK = 26"
definition REQ_ADD_SERVER :: nat where "REQ_ADD_SERVER = 27"
definition REQ_ADD_PEER :: nat where "REQ_ADD_PEER = 28"
definition REQ_DEL_SOURCE :: nat where "REQ_DEL_SOURCE = 29"
definition REQ_WRITERTC :: nat where "REQ_WRITERTC = 30"
definition REQ_DFREQ :: nat where "REQ_DFREQ = 31"
definition REQ_DOFFSET :: nat where "REQ_DOFFSET = 32"
definition REQ_TRACKING :: nat where "REQ_TRACKING = 33"
definition REQ_SOURCESTATS :: nat where "REQ_SOURCESTATS = 34"
definition REQ_RTCREPORT :: nat where "REQ_RTCREPORT = 35"
definition REQ_TRIMRTC :: nat where "REQ_TRIMRTC = 36"
definition REQ_CYCLELOGS :: nat where "REQ_CYCLELOGS = 37"
definition REQ_SUBNETS_ACCESSED :: nat where "REQ_SUBNETS_ACCESSED = 38"
definition REQ_CLIENT_ACCESSES :: nat where "REQ_CLIENT_ACCESSES = 39"
definition REQ_CLIENT_ACCESSES_BY_INDEX :: nat where "REQ_CLIENT_ACCESSES_BY_INDEX = 40"
definition REQ_MANUAL_LIST :: nat where "REQ_MANUAL_LIST = 41"
definition REQ_MANUAL_DELETE :: nat where "REQ_MANUAL_DELETE = 42"
definition REQ_MAKESTEP :: nat where "REQ_MAKESTEP = 43"
definition REQ_ACTIVITY :: nat where "REQ_ACTIVITY = 44"
definition REQ_MODIFY_MINSTRATUM :: nat where "REQ_MODIFY_MINSTRATUM = 45"
definition REQ_MODIFY_POLLTARGET :: nat where "REQ_MODIFY_POLLTARGET = 46"
definition REQ_MODIFY_MAXDELAYDEVRATIO :: nat where "REQ_MODIFY_MAXDELAYDEVRATIO = 47"
definition REQ_RESELECT :: nat where "REQ_RESELECT = 48"
definition REQ_RESELECTDISTANCE :: nat where "REQ_RESELECTDISTANCE = 49"
definition REQ_MODIFY_MAKESTEP :: nat where "REQ_MODIFY_MAKESTEP = 50"
definition REQ_SMOOTHING :: nat where "REQ_SMOOTHING = 51"
definition REQ_SMOOTHTIME :: nat where "REQ_SMOOTHTIME = 52"
definition REQ_REFRESH :: nat where "REQ_REFRESH = 53"
definition N_REQUEST_TYPES :: nat where "N_REQUEST_TYPES = 54"

lemmas REQ_defs =
  REQ_NULL_def REQ_ONLINE_def REQ_OFFLINE_def REQ_BURST_def REQ_MODIFY_MINPOLL_def
  REQ_MODIFY_MAXPOLL_def REQ_DUMP_def REQ_MODIFY_MAXDELAY_def
  REQ_MODIFY_MAXDELAYRATIO_def REQ_MODIFY_MAXUPDATESKEW_def REQ_LOGON_def
  REQ_SETTIME_def REQ_LOCAL_def REQ_MANUAL_def REQ_N_SOURCES_def REQ_SOURCE_DATA_def
  REQ_REKEY_def REQ_ALLOW_def REQ_ALLOWALL_def REQ_DENY_def REQ_DENYALL_def
  REQ_CMDALLOW_def REQ_CMDALLOWALL_def REQ_CMDDENY_def REQ_CMDDENYALL_def
  REQ_ACCHECK_def REQ_CMDACCHECK_def REQ_ADD_SERVER_def REQ_ADD_PEER_def
  REQ_DEL_SOURCE_def REQ_WRITERTC_def REQ_DFREQ_def REQ_DOFFSET_def REQ_TRACKING_def
  REQ_SOURCESTATS_def REQ_RTCREPORT_def REQ_TRIMRTC_def REQ_CYCLELOGS_def
  REQ_SUBNETS_ACCESSED_def REQ_CLIENT_ACCESSES_def REQ_CLIENT_ACCESSES_BY_INDEX_def
  REQ_MANUAL_LIST_def REQ_MANUAL_DELETE_def REQ_MAKESTEP_def REQ_ACTIVITY_def
  REQ_MODIFY_MINSTRATUM_def REQ_MODIFY_POLLTARGET_def REQ_MODIFY_MAXDELAYDEVRATIO_def
  REQ_RESELECT_def REQ_RESELECTDISTANCE_def REQ_MODIFY_MAKESTEP_def REQ_SMOOTHING_def
  REQ_SMOOTHTIME_def REQ_REFRESH_def

datatype permission = PERMIT_OPEN | PERMIT_LOCAL | PERMIT_AUTH

definition permissions :: "permission list" where
  "permissions = [
     PERMIT_OPEN, \<comment> \<open>NULL\<close>
     PERMIT_AUTH, \<comment> \<open>ONLINE\<close>
     PERMIT_AUTH, \<comment> \<open>OFFLINE\<close>
     PERMIT_AUTH, \<comment> \<open>BURST\<close>
     PERMIT_AUTH, \<comment> \<open>MODIFY_MINPOLL\<close>
     PERMIT_AUTH, \<comment> \<open>MODIFY_MAXPOLL\<close>
     PERMIT_AUTH, \<comment> \<open>DUMP\<close>
     PERMIT_AUTH, \<comment> \<open>MODIFY_MAXDELAY\<close>
     PERMIT_AUTH, \<comment> \<open>MODIFY_MAXDELAYRATIO\<close>
     PERMIT_AUTH, \<comment> \<open>MODIFY_MAXUPDATESKEW\<close>
     PERMIT_OPEN, \<comment> \<open>LOGON\<close>
     PERMIT_AUTH, \<comment> \<open>SETTIME\<close>
     PERMIT_AUTH, \<comment> \<open>LOCAL\<close>
     PERMIT_AUTH, \<comment> \<open>MANUAL\<close>
     PERMIT_OPEN, \<comment> \<open>N_SOURCES\<close>
     PERMIT_OPEN, \<comment> \<open>SOURCE_DATA\<close>
     PERMIT_AUTH, \<comment> \<open>REKEY\<close>
     PERMIT_AUTH, \<comment> \<open>ALLOW\<close>
     PERMIT_AUTH, \<comment> \<open>ALLOWALL\<close>
     PERMIT_AUTH, \<comment> \<open>DENY\<close>
     PERMIT_AUTH, \<comment> \<open>DENYALL\<close>
     PERMIT_AUTH, \<comment> \<open>CMDALLOW\<close>
     PERMIT_AUTH, \<comment> \<open>CMDALLOWALL\<close>
     PERMIT_AUTH, \<comment> \<open>CMDDENY\<close>
     PERMIT_AUTH, \<comment> \<open>CMDDENYALL\<close>
     PERMIT_AUTH, \<comment> \<open>ACCHECK\<close>
     PERMIT_AUTH, \<comment> \<open>CMDACCHECK\<close>
     PERMIT_AUTH, \<comment> \<open>ADD_SERVER\<close>
     PERMIT_AUTH, \<comment> \<open>ADD_PEER\<close>
     PERMIT_AUTH, \<comment> \<open>DEL_SOURCE\<close>
     PERMIT_AUTH, \<comment> \<open>WRITERTC\<close>
     PERMIT_AUTH, \<comment> \<open>DFREQ\<close>
     PERMIT_AUTH, \<comment> \<open>DOFFSET\<close>
     PERMIT_OPEN, \<comment> \<open>TRACKING\<close>
     PERMIT_OPEN, \<comment> \<open>SOURCESTATS\<close>
     PERMIT_OPEN, \<comment> \<open>RTCREPORT\<close>
     PERMIT_AUTH, \<comment> \<open>TRIMRTC\<close>
     PERMIT_AUTH, \<comment> \<open>CYCLELOGS\<close>
     PERMIT_AUTH, \<comment> \<open>SUBNETS_ACCESSED\<close>
     PERMIT_AUTH, \<comment> \<open>CLIENT_ACCESSES (by subnet)\<close>
     PERMIT_AUTH, \<comment> \<open>CLIENT_ACCESSES_BY_INDEX\<close>
     PERMIT_OPEN, \<comment> \<open>MANUAL_LIST\<close>
     PERMIT_AUTH, \<comment> \<open>MANUAL_DELETE\<close>
     PERMIT_AUTH, \<comment> \<open>MAKESTEP\<close>
     PERMIT_OPEN, \<comment> \<open>ACTIVITY\<close>
     PERMIT_AUTH, \<comment> \<open>MODIFY_MINSTRATUM\<close>
     PERMIT_AUTH, \<comment> \<open>MODIFY_POLLTARGET\<close>
     PERMIT_AUTH, \<comment> \<open>MODIFY_MAXDELAYDEVRATIO\<close>
     PERMIT_AUTH, \<comment> \<open>RESELECT\<close>
     PERMIT_AUTH, \<comment> \<open>RESELECTDISTANCE\<close>
     PERMIT_AUTH, \<comment> \<open>MODIFY_MAKESTEP\<close>
     PERMIT_OPEN, \<comment> \<open>SMOOTHING\<close>
     PERMIT_AUTH, \<comment> \<open>SMOOTHTIME\<close>
     PERMIT_AUTH  \<comment> \<open>REFRESH\<close>
   ]"

subsection \<open>The dispatcher\<close>

text \<open>
  The static descriptors of the module, what \<^verbatim>\<open>recvfrom\<close> delivers, and what one run of
  \<^verbatim>\<open>read_from_cmd_socket\<close> does: the datagrams handed to \<^verbatim>\<open>sendto\<close> (descriptor,
  destination, message and the length from \<^verbatim>\<open>PKL_ReplyLength\<close>), the calls of
  \<^verbatim>\<open>CLG_LogCommandAccess\<close>, the handlers called, their calls into the other modules, the
  table of the module afterwards, and whether an \<^verbatim>\<open>assert\<close> stopped the process.
\<close>
record sockets =
  sock_fdu :: int
  sock_fd4 :: int
  sock_fd6 :: int

record datagram =
  recv_status :: int
  from_length :: nat
  where_from :: sockaddr_all
  rx_message :: CMD_Request

record 't outcome =
  sent :: "(int \<times> sockaddr_all \<times> CMD_Reply \<times> nat) list"
  logged :: "(IPAddr \<times> CLG_Command \<times> int) list"
  invoked :: "string list"
  called :: "call list"
  table :: 't
  aborted :: bool

text \<open>
  \<^verbatim>\<open>transmit_reply\<close>. A failure of \<^verbatim>\<open>sendto\<close> is only logged; the datagram counts as sent.
\<close>
definition transmit_reply ::
  "'t env \<Rightarrow> sockets \<Rightarrow> CMD_Reply \<Rightarrow> sockaddr_all \<Rightarrow> 't outcome \<Rightarrow> 't outcome" where
  "transmit_reply E S msg where_to out =
     (case sa_family where_to of
        AF_INET \<Rightarrow>
          out\<lparr>sent := sent out @ [(sock_fd4 S, where_to, msg, PKL_ReplyLength (pkl E) msg)]\<rparr>
      | AF_INET6 \<Rightarrow>
          out\<lparr>sent := sent out @ [(sock_fd6 S, where_to, msg, PKL_ReplyLength (pkl E) msg)]\<rparr>
      | AF_UNIX \<Rightarrow>
          out\<lparr>sent := sent out @ [(sock_fdu S, where_to, msg, PKL_ReplyLength (pkl E) msg)]\<rparr>
      | AF_OTHER n \<Rightarrow> out\<lparr>aborted := True\<rparr>)"

definition CLG_LogCommandAccess ::
  "IPAddr \<Rightarrow> CLG_Command \<Rightarrow> int \<Rightarrow> 't outcome \<Rightarrow> 't outcome" where
  "CLG_LogCommandAccess remote_ip type now out =
     out\<lparr>logged := logged out @ [(remote_ip, type, now)]\<rparr>"

text \<open>
  The switch on the family of the origin: it returns, fails an assertion, or goes on with
  the flag \<^verbatim>\<open>localhost\<close>.
\<close>
datatype 'a step = Returns | Asserts | Goes 'a

definition check_localhost ::
  "sockets \<Rightarrow> int \<Rightarrow> sockaddr_all \<Rightarrow> IPAddr \<Rightarrow> bool step" where
  "check_localhost S sock_fd from remote_ip =
     (case remote_ip of
        IPADDR_INET4 in4 \<Rightarrow>
          if sock_fd = sock_fd4 S then Goes (in4 = INADDR_LOOPBACK) else Asserts
      | IPADDR_INET6 in6 \<Rightarrow>
          if sock_fd = sock_fd6 S then Goes (in6 = in6addr_loopback) else Asserts
      | IPADDR_UNSPEC \<Rightarrow>
          if sa_family from \<noteq> AF_UNIX then Returns
          else if sock_fd = sock_fdu S then Goes True else Asserts)"

text \<open>The reply as the dispatcher fills it in before it looks at the version.\<close>
definition template_reply :: "'t env \<Rightarrow> CMD_Request \<Rightarrow> CMD_Reply" where
  "template_reply E rx =
     \<lparr>reply_version = of_nat (macro (candm E) ''PROTO_VERSION_NUMBER''),
      reply_pkt_type = of_nat (macro (candm E) ''PKT_TYPE_CMD_REPLY''),
      reply_res1 = 0,
      reply_res2 = 0,
      reply_command = command rx,
      reply = RPY_NULL,
      status = STT_SUCCESS,
      pad1 = 0,
      pad2 = 0,
      pad3 = 0,
      reply_sequence = sequence rx,
      pad4 = 0,
      pad5 = 0,
      reply_data = Map.empty\<rparr>"

text \<open>
  The check of the level of authority: every command from the Unix domain socket is
  allowed, the others by the row of the table.
\<close>
definition check_authority ::
  "sockets \<Rightarrow> int \<Rightarrow> sockaddr_all \<Rightarrow> bool \<Rightarrow> nat \<Rightarrow> bool step" where
  "check_authority S sock_fd from localhost rx_command =
     (if sa_family from = AF_UNIX then
        (if sock_fd = sock_fdu S then Goes True else Asserts)
      else
        (case permissions ! rx_command of
           PERMIT_AUTH \<Rightarrow> Goes False
         | PERMIT_LOCAL \<Rightarrow> Goes localhost
         | PERMIT_OPEN \<Rightarrow> Goes True))"

text \<open>
  The switch on the command, case by case in the order of the code. A command with no
  case falls to \<^verbatim>\<open>default: assert(0)\<close>.
\<close>
datatype 't switch_case =
    Do_nothing
  | Logon_fails
  | Handler string "'t env \<Rightarrow> CMD_Request \<Rightarrow> 't hstate \<Rightarrow> 't hstate"

definition switch_rx_command :: "(nat \<times> 't switch_case) list" where
  "switch_rx_command =
     [(REQ_NULL, Do_nothing),
      (REQ_DUMP, Handler ''handle_dump'' handle_dump),
      (REQ_ONLINE, Handler ''handle_online'' handle_online),
      (REQ_OFFLINE, Handler ''handle_offline'' handle_offline),
      (REQ_BURST, Handler ''handle_burst'' handle_burst),
      (REQ_MODIFY_MINPOLL, Handler ''handle_modify_minpoll'' handle_modify_minpoll),
      (REQ_MODIFY_MAXPOLL, Handler ''handle_modify_maxpoll'' handle_modify_maxpoll),
      (REQ_MODIFY_MAXDELAY, Handler ''handle_modify_maxdelay'' handle_modify_maxdelay),
      (REQ_MODIFY_MAXDELAYRATIO,
         Handler ''handle_modify_maxdelayratio'' handle_modify_maxdelayratio),
      (REQ_MODIFY_MAXDELAYDEVRATIO,
         Handler ''handle_modify_maxdelaydevratio'' handle_modify_maxdelaydevratio),
      (REQ_MODIFY_MAXUPDATESKEW,
         Handler ''handle_modify_maxupdateskew'' handle_modify_maxupdateskew),
      (REQ_MODIFY_MAKESTEP, Handler ''handle_modify_makestep'' handle_modify_makestep),
      (REQ_LOGON, Logon_fails),
      (REQ_SETTIME, Handler ''handle_settime'' handle_settime),
      (REQ_LOCAL, Handler ''handle_local'' handle_local),
      (REQ_MANUAL, Handler ''handle_manual'' handle_manual),
      (REQ_N_SOURCES, Handler ''handle_n_sources'' handle_n_sources),
      (REQ_SOURCE_DATA, Handler ''handle_source_data'' handle_source_data),
      (REQ_REKEY, Handler ''handle_rekey'' handle_rekey),
      (REQ_ALLOW, Handler ''handle_allowdeny''
         (\<lambda>E rx. handle_allowdeny E rx True False)),
      (REQ_ALLOWALL, Handler ''handle_allowdeny''
         (\<lambda>E rx. handle_allowdeny E rx True True)),
      (REQ_DENY, Handler ''handle_allowdeny''
         (\<lambda>E rx. handle_allowdeny E rx False False)),
      (REQ_DENYALL, Handler ''handle_allowdeny''
         (\<lambda>E rx. handle_allowdeny E rx False True)),
      (REQ_CMDALLOW, Handler ''handle_cmdallowdeny''
         (\<lambda>E rx. handle_cmdallowdeny E rx True False)),
      (REQ_CMDALLOWALL, Handler ''handle_cmdallowdeny''
         (\<lambda>E rx. handle_cmdallowdeny E rx True True)),
      (REQ_CMDDENY, Handler ''handle_cmdallowdeny''
         (\<lambda>E rx. handle_cmdallowdeny E rx False False)),
      (REQ_CMDDENYALL, Handler ''handle_cmdallowdeny''
         (\<lambda>E rx. handle_cmdallowdeny E rx False True)),
      (REQ_ACCHECK, Handler ''handle_accheck'' handle_accheck),
      (REQ_CMDACCHECK, Handler ''handle_cmdaccheck'' handle_cmdaccheck),
      (REQ_ADD_SERVER, Handler ''handle_add_source''
         (\<lambda>E. handle_add_source E NTP_SERVER)),
      (REQ_ADD_PEER, Handler ''handle_add_source''
         (\<lambda>E. handle_add_source E NTP_PEER)),
      (REQ_DEL_SOURCE, Handler ''handle_del_source'' handle_del_source),
      (REQ_WRITERTC, Handler ''handle_writertc'' handle_writertc),
      (REQ_DFREQ, Handler ''handle_dfreq'' handle_dfreq),
      (REQ_DOFFSET, Handler ''handle_doffset'' handle_doffset),
      (REQ_TRACKING, Handler ''handle_tracking'' handle_tracking),
      (REQ_SMOOTHING, Handler ''handle_smoothing'' handle_smoothing),
      (REQ_SMOOTHTIME, Handler ''handle_smoothtime'' handle_smoothtime),
      (REQ_SOURCESTATS, Handler ''handle_sourcestats'' handle_sourcestats),
      (REQ_RTCREPORT, Handler ''handle_rtcreport'' handle_rtcreport),
      (REQ_TRIMRTC, Handler ''handle_trimrtc'' handle_trimrtc),
      (REQ_CYCLELOGS, Handler ''handle_cyclelogs'' handle_cyclelogs),
      (REQ_CLIENT_ACCESSES_BY_INDEX,
         Handler ''handle_client_accesses_by_index'' handle_client_accesses_by_index),
      (REQ_MANUAL_LIST, Handler ''handle_manual_list'' handle_manual_list),
      (REQ_MANUAL_DELETE, Handler ''handle_manual_delete'' handle_manual_delete),
      (REQ_MAKESTEP, Handler ''handle_make_step'' handle_make_step),
      (REQ_ACTIVITY, Handler ''handle_activity'' handle_activity),
      (REQ_RESELECTDISTANCE,
         Handler ''handle_reselect_distance'' handle_reselect_distance),
      (REQ_RESELECT, Handler ''handle_reselect'' handle_reselect),
      (REQ_MODIFY_MINSTRATUM,
         Handler ''handle_modify_minstratum'' handle_modify_minstratum),
      (REQ_MODIFY_POLLTARGET,
         Handler ''handle_modify_polltarget'' handle_modify_polltarget),
      (REQ_REFRESH, Handler ''handle_refresh'' handle_refresh)]"

text \<open>
  The part of \<^verbatim>\<open>read_from_cmd_socket\<close> from the check of authority to the end: the
  handler of an allowed command runs on the reply, a command that is not allowed gets the
  status \<^verbatim>\<open>STT_UNAUTH\<close>, and the reply is transmitted (\<^verbatim>\<open>do_it\<close> is 1 and never changes).
\<close>
definition do_it :: bool where
  "do_it = True"

definition run_command ::
  "'t env \<Rightarrow> sockets \<Rightarrow> int \<Rightarrow> datagram \<Rightarrow> bool \<Rightarrow> nat \<Rightarrow> CMD_Reply \<Rightarrow> 't outcome
     \<Rightarrow> 't outcome" where
  "run_command E S sock_fd dg localhost rx_command tx out =
     (if rx_command \<ge> N_REQUEST_TYPES then out\<lparr>aborted := True\<rparr>
      else
        (case check_authority S sock_fd (where_from dg) localhost rx_command of
           Returns \<Rightarrow> out
         | Asserts \<Rightarrow> out\<lparr>aborted := True\<rparr>
         | Goes allowed \<Rightarrow>
             (let h0 = \<lparr>tx_message = tx, calls = [], access_auth_table = table out,
                        failed_assert = False\<rparr>;
                  (names, h) =
                    (if allowed then
                       (case map_of switch_rx_command rx_command of
                          Some Do_nothing \<Rightarrow> ([], h0)
                        | Some Logon_fails \<Rightarrow> ([], tx_status STT_FAILED h0)
                        | Some (Handler name handle) \<Rightarrow> ([name], handle E (rx_message dg) h0)
                        | None \<Rightarrow> ([], assert_0 h0))
                     else ([], tx_status STT_UNAUTH h0));
                  out = out\<lparr>invoked := invoked out @ names,
                             called := called out @ calls h,
                             table := access_auth_table h\<rparr>
              in if failed_assert h then out\<lparr>aborted := True\<rparr>
                 else if do_it then transmit_reply E S (tx_message h) (where_from dg) out
                 else out)))"

text \<open>\<^verbatim>\<open>read_from_cmd_socket\<close>, on the table \<open>tbl\<close> of the module.\<close>
definition read_from_cmd_socket ::
  "'t env \<Rightarrow> sockets \<Rightarrow> 't \<Rightarrow> int \<Rightarrow> datagram \<Rightarrow> 't outcome" where
  "read_from_cmd_socket E S tbl sock_fd dg =
     (let out = \<lparr>sent = [], logged = [], invoked = [], called = [], table = tbl,
                 aborted = False\<rparr>;
          status = recv_status dg
      in if status < 0 then out
         else if from_length dg > sizeof_where_from E \<or> from_length dg \<le> sizeof_sa_family E
         then out
         else
           (let read_length = nat status;
                (cooked_now, now) = SCH_GetLastEventTime (clk E);
                (remote_ip, remote_port) = UTI_SockaddrToIPAndPort (uti E) (where_from dg)
            in case check_localhost S sock_fd (where_from dg) remote_ip of
                 Returns \<Rightarrow> out
               | Asserts \<Rightarrow> out\<lparr>aborted := True\<rparr>
               | Goes localhost \<Rightarrow>
                   if \<not> (localhost \<or> ADF_IsAllowed (adf E) tbl remote_ip) then out
                   else
                     (let expected_length =
                            (if read_length \<ge> offsetof (candm E) ''CMD_Request.data''
                             then PKL_CommandLength (pkl E) (rx_message dg) else 0)
                      in if expected_length < offsetof (candm E) ''CMD_Request.data'' \<or>
                            read_length < offsetof (candm E) ''CMD_Reply.data'' \<or>
                            unat (pkt_type (rx_message dg)) \<noteq>
                              macro (candm E) ''PKT_TYPE_CMD_REQUEST'' \<or>
                            res1 (rx_message dg) \<noteq> 0 \<or>
                            res2 (rx_message dg) \<noteq> 0
                         then CLG_LogCommandAccess remote_ip CLG_CMD_BAD_PKT
                                (tv_sec cooked_now) out
                         else
                           (let rx_command = unat (command (rx_message dg));
                                tx = template_reply E (rx_message dg)
                            in if unat (version (rx_message dg)) \<noteq>
                                    macro (candm E) ''PROTO_VERSION_NUMBER''
                               then
                                 (let out = CLG_LogCommandAccess remote_ip CLG_CMD_BAD_PKT
                                              (tv_sec cooked_now) out
                                  in if unat (version (rx_message dg)) \<ge>
                                          macro (candm E) ''PROTO_VERSION_MISMATCH_COMPAT_SERVER''
                                     then transmit_reply E S (tx\<lparr>status := STT_BADPKTVERSION\<rparr>)
                                            (where_from dg) out
                                     else out)
                               else if rx_command \<ge> N_REQUEST_TYPES
                               then transmit_reply E S (tx\<lparr>status := STT_INVALID\<rparr>)
                                      (where_from dg)
                                      (CLG_LogCommandAccess remote_ip CLG_CMD_BAD_PKT
                                         (tv_sec cooked_now) out)
                               else if read_length < expected_length
                               then transmit_reply E S (tx\<lparr>status := STT_BADPKTLENGTH\<rparr>)
                                      (where_from dg)
                                      (CLG_LogCommandAccess remote_ip CLG_CMD_BAD_PKT
                                         (tv_sec cooked_now) out)
                               else run_command E S sock_fd dg localhost rx_command tx
                                      (CLG_LogCommandAccess remote_ip CLG_CMD_NORMAL
                                         (tv_sec cooked_now) out)))))"

subsection \<open>The steps of the validation\<close>

text \<open>
  The conditions under which \<^verbatim>\<open>read_from_cmd_socket\<close> gets past each of its early
  returns, collected so that the theorems can name them. \<open>passes_access\<close>: the datagram
  was read, it has a source address, the switch on the family goes on with the flag
  \<open>localhost\<close>, and the origin is local or allowed by the table. \<open>header_sane\<close>: the
  check of the sizes, of the type of the packet and of the two reserved bytes.
  \<open>passes_validation\<close>: these two, the version, the number of the command and the length.
\<close>
definition out0 :: "'t \<Rightarrow> 't outcome" where
  "out0 tbl = \<lparr>sent = [], logged = [], invoked = [], called = [], table = tbl, aborted = False\<rparr>"

definition remote_ip_of :: "'t env \<Rightarrow> datagram \<Rightarrow> IPAddr" where
  "remote_ip_of E dg = fst (UTI_SockaddrToIPAndPort (uti E) (where_from dg))"

definition passes_access :: "'t env \<Rightarrow> sockets \<Rightarrow> 't \<Rightarrow> int \<Rightarrow> datagram \<Rightarrow> bool \<Rightarrow> bool" where
  "passes_access E S tbl sock_fd dg localhost \<longleftrightarrow>
     0 \<le> recv_status dg \<and>
     from_length dg \<le> sizeof_where_from E \<and> sizeof_sa_family E < from_length dg \<and>
     check_localhost S sock_fd (where_from dg) (remote_ip_of E dg) = Goes localhost \<and>
     (localhost \<or> ADF_IsAllowed (adf E) tbl (remote_ip_of E dg))"

definition header_sane :: "'t env \<Rightarrow> datagram \<Rightarrow> bool" where
  "header_sane E dg \<longleftrightarrow>
     offsetof (candm E) ''CMD_Request.data'' \<le> nat (recv_status dg) \<and>
     offsetof (candm E) ''CMD_Request.data'' \<le> PKL_CommandLength (pkl E) (rx_message dg) \<and>
     offsetof (candm E) ''CMD_Reply.data'' \<le> nat (recv_status dg) \<and>
     unat (pkt_type (rx_message dg)) = macro (candm E) ''PKT_TYPE_CMD_REQUEST'' \<and>
     res1 (rx_message dg) = 0 \<and> res2 (rx_message dg) = 0"

definition passes_validation :: "'t env \<Rightarrow> sockets \<Rightarrow> 't \<Rightarrow> int \<Rightarrow> datagram \<Rightarrow> bool \<Rightarrow> bool" where
  "passes_validation E S tbl sock_fd dg localhost \<longleftrightarrow>
     passes_access E S tbl sock_fd dg localhost \<and> header_sane E dg \<and>
     unat (version (rx_message dg)) = macro (candm E) ''PROTO_VERSION_NUMBER'' \<and>
     unat (command (rx_message dg)) < N_REQUEST_TYPES \<and>
     PKL_CommandLength (pkl E) (rx_message dg) \<le> nat (recv_status dg)"

text \<open>
  An origin is local when it is the IPv4 or the IPv6 loopback address or the Unix domain
  socket, as the switch on the family sets \<^verbatim>\<open>localhost\<close>. The family of a source address
  is recognized when the module has a socket for it; \<open>reply_to\<close> is the datagram that
  \<^verbatim>\<open>transmit_reply\<close> then hands to \<^verbatim>\<open>sendto\<close>.
\<close>
definition local_origin :: "'t env \<Rightarrow> datagram \<Rightarrow> bool" where
  "local_origin E dg \<longleftrightarrow>
     remote_ip_of E dg = IPADDR_INET4 INADDR_LOOPBACK \<or>
     remote_ip_of E dg = IPADDR_INET6 in6addr_loopback \<or>
     (remote_ip_of E dg = IPADDR_UNSPEC \<and> sa_family (where_from dg) = AF_UNIX)"

definition recognized :: "sockaddr_all \<Rightarrow> bool" where
  "recognized from \<longleftrightarrow>
     sa_family from = AF_INET \<or> sa_family from = AF_INET6 \<or> sa_family from = AF_UNIX"

definition reply_to ::
  "'t env \<Rightarrow> sockets \<Rightarrow> datagram \<Rightarrow> CMD_Reply \<Rightarrow> int \<times> sockaddr_all \<times> CMD_Reply \<times> nat" where
  "reply_to E S dg msg =
     ((case sa_family (where_from dg) of
         AF_INET \<Rightarrow> sock_fd4 S | AF_INET6 \<Rightarrow> sock_fd6 S | _ \<Rightarrow> sock_fdu S),
      where_from dg, msg, PKL_ReplyLength (pkl E) msg)"


text \<open>
  The state on which the dispatcher starts the handler of a valid request: the template
  of the reply, no call yet, and the table of the module.
\<close>
definition h0 :: "'t env \<Rightarrow> 't \<Rightarrow> datagram \<Rightarrow> 't hstate" where
  "h0 E tbl dg =
     \<lparr>tx_message = template_reply E (rx_message dg), calls = [], access_auth_table = tbl,
      failed_assert = False\<rparr>"


subsection \<open>Pages of client accesses\<close>

text \<open>
  What a request for a page of client accesses asks for and what
  \<^verbatim>\<open>CLG_GetClientAccessReportByIndex\<close> answers: \<open>page_first\<close> is the first index,
  \<open>page_count\<close> the number of indices after the clamp to \<^verbatim>\<open>MAX_CLIENT_ACCESSES\<close>,
  \<open>page_now\<close> the time the handler passes on, \<open>queried\<close> the call for the \<open>i\<close>-th index
  of the page. An index is \<open>row_ok\<close> when the answer is \<^verbatim>\<open>CLG_SUCCESS\<close> and
  \<open>row_skipped\<close> when it is \<^verbatim>\<open>CLG_INDEXTOOLARGE\<close>; \<open>page_rows\<close> are the indices of the
  page with a row. \<open>rd\<close> reads a field of the union of the reply, \<open>client_row\<close> are the
  eight assignments that copy a report into the slot \<open>j\<close> of the reply, and a report is
  \<open>packed\<close> in a slot when the slot holds these eight values.
\<close>
definition rd :: "'t hstate \<Rightarrow> rpy_field \<Rightarrow> val option" where
  "rd h f = reply_data (tx_message h) f"

definition client_row ::
  "'t env \<Rightarrow> nat \<Rightarrow> RPT_ClientAccessByIndex_Report \<Rightarrow> (rpy_field \<times> val) list" where
  "client_row E j report =
     [(Arr ''client_accesses_by_index.clients'' j ''ip'', IPAddr_val E (ca_ip_addr report)),
      (Arr ''client_accesses_by_index.clients'' j ''client_hits'',
         htonl_int (ca_client_hits report)),
      (Arr ''client_accesses_by_index.clients'' j ''peer_hits'',
         htonl_int (ca_peer_hits report)),
      (Arr ''client_accesses_by_index.clients'' j ''cmd_hits_auth'',
         htonl_int (ca_cmd_hits_auth report)),
      (Arr ''client_accesses_by_index.clients'' j ''cmd_hits_normal'',
         htonl_int (ca_cmd_hits_normal report)),
      (Arr ''client_accesses_by_index.clients'' j ''cmd_hits_bad'',
         htonl_int (ca_cmd_hits_bad report)),
      (Arr ''client_accesses_by_index.clients'' j ''last_ntp_hit_ago'',
         htonl_int (ca_last_ntp_hit_ago report)),
      (Arr ''client_accesses_by_index.clients'' j ''last_cmd_hit_ago'',
         htonl_int (ca_last_cmd_hit_ago report))]"

definition packed :: "'t env \<Rightarrow> 't hstate \<Rightarrow> nat \<Rightarrow> RPT_ClientAccessByIndex_Report \<Rightarrow> bool" where
  "packed E h j report \<longleftrightarrow> (\<forall>(f, v) \<in> set (client_row E j report). rd h f = Some v)"

definition queried :: "u32 \<Rightarrow> int \<Rightarrow> nat \<Rightarrow> call" where
  "queried first now i =
     (''CLG_GetClientAccessReportByIndex'', [A32 (first + of_nat i), AInt now])"

definition row_ok :: "'t env \<Rightarrow> u32 \<Rightarrow> int \<Rightarrow> nat \<Rightarrow> bool" where
  "row_ok E first now i \<longleftrightarrow>
     fst (CLG_GetClientAccessReportByIndex (clk E) (first + of_nat i) now) = CLG_SUCCESS"

definition row_skipped :: "'t env \<Rightarrow> u32 \<Rightarrow> int \<Rightarrow> nat \<Rightarrow> bool" where
  "row_skipped E first now i \<longleftrightarrow>
     fst (CLG_GetClientAccessReportByIndex (clk E) (first + of_nat i) now) = CLG_INDEXTOOLARGE"

definition page_first :: "'t env \<Rightarrow> CMD_Request \<Rightarrow> u32" where
  "page_first E rx = rx_u32 E rx ''client_accesses_by_index.first_index''"

definition page_count :: "'t env \<Rightarrow> CMD_Request \<Rightarrow> nat" where
  "page_count E rx =
     min (unat (rx_u32 E rx ''client_accesses_by_index.n_indices''))
         (macro (candm E) ''MAX_CLIENT_ACCESSES'')"

definition page_now :: "'t env \<Rightarrow> int" where
  "page_now E = tv_sec (fst (SCH_GetLastEventTime (clk E)))"

definition page_rows :: "'t env \<Rightarrow> CMD_Request \<Rightarrow> nat list" where
  "page_rows E rx =
     filter (row_ok E (page_first E rx) (page_now E)) [0..<page_count E rx]"

subsection \<open>An environment for the examples\<close>

text \<open>
  The examples run the module in one environment: the protocol at version 6 with the
  compatibility floor 5, headers of 20 and 28 bytes, pages of at most 8 clients, a table
  that is the list of the allowed addresses, and the descriptors 3, 4 and 5 for the IPv4,
  the IPv6 and the Unix domain socket.
\<close>
definition be32 :: "u8 list \<Rightarrow> u32" where
  "be32 bs = foldl (\<lambda>acc b. push_bit 8 acc OR ucast b) 0 bs"

definition lookup :: "(string \<times> nat) list \<Rightarrow> string \<Rightarrow> nat" where
  "lookup kvs k = (case map_of kvs k of Some v \<Rightarrow> v | None \<Rightarrow> 0)"

definition candm0 :: candm_h where
  "candm0 =
     \<lparr>macro = lookup
        [(''PROTO_VERSION_NUMBER'', 6), (''PROTO_VERSION_MISMATCH_COMPAT_SERVER'', 5),
         (''PKT_TYPE_CMD_REQUEST'', 1), (''PKT_TYPE_CMD_REPLY'', 2),
         (''MAX_CLIENT_ACCESSES'', 8)],
      offsetof = lookup
        [(''CMD_Request.data'', 20), (''CMD_Reply.data'', 28),
         (''client_accesses_by_index.first_index'', 0),
         (''client_accesses_by_index.n_indices'', 4),
         (''modify_minpoll.address'', 0), (''modify_minpoll.new_minpoll'', 20),
         (''modify_maxpoll.address'', 0), (''modify_maxpoll.new_maxpoll'', 20),
         (''modify_minstratum.address'', 0), (''modify_minstratum.new_min_stratum'', 20),
         (''ac_check.ip'', 0)]\<rparr>"

definition pkl0 :: pktlength where
  "pkl0 = \<lparr>PKL_CommandLength = (\<lambda>r. 36), PKL_CommandPaddingLength = (\<lambda>r. 0),
            PKL_ReplyLength = (\<lambda>r. 28)\<rparr>"

definition uti0 :: util where
  "uti0 =
     \<lparr>UTI_SockaddrToIPAndPort = (\<lambda>sa.
        case sa_family sa of
          AF_INET \<Rightarrow> (IPADDR_INET4 (be32 (take 4 (drop 2 (sa_data sa)))), 0)
        | AF_INET6 \<Rightarrow> (IPADDR_INET6 (take 16 (drop 6 (sa_data sa))), 0)
        | _ \<Rightarrow> (IPADDR_UNSPEC, 0)),
      UTI_IPNetworkToHost = (\<lambda>d off. IPADDR_INET4 (ntohl_at d off)),
      UTI_IPHostToNetwork = (\<lambda>a. []),
      UTI_FloatNetworkToHost = (\<lambda>f. 0),
      UTI_FloatHostToNetwork = (\<lambda>x. 0),
      UTI_TimevalNetworkToHost = (\<lambda>d off. \<lparr>tv_sec = 0, tv_usec = 0\<rparr>),
      UTI_TimevalHostToNetwork = (\<lambda>t. [])\<rparr>"

definition adf0 :: "(IPAddr list) addrfilt" where
  "adf0 =
     \<lparr>ADF_Allow = (\<lambda>t a bits. (ADF_SUCCESS, a # t)),
      ADF_AllowAll = (\<lambda>t a bits. (ADF_SUCCESS, a # t)),
      ADF_Deny = (\<lambda>t a bits. (ADF_SUCCESS, removeAll a t)),
      ADF_DenyAll = (\<lambda>t a bits. (ADF_SUCCESS, removeAll a t)),
      ADF_IsAllowed = (\<lambda>t a. a \<in> set t)\<rparr>"

definition source_report0 :: RPT_SourceReport where
  "source_report0 =
     \<lparr>sr_ip_addr = IPADDR_UNSPEC, sr_stratum = 0, sr_poll = 0, sr_state = RPT_SYNC,
      sr_mode = RPT_NTP_CLIENT, sr_sel_option = RPT_NORMAL, sr_reachability = 0,
      sr_latest_meas_ago = 0, sr_orig_latest_meas = 0, sr_latest_meas = 0,
      sr_latest_meas_err = 0\<rparr>"

definition nsr0 :: ntp_sources where
  "nsr0 =
     \<lparr>NSR_TakeSourcesOnline = (\<lambda>m a. True),
      NSR_TakeSourcesOffline = (\<lambda>m a. True),
      NSR_InitiateSampleBurst = (\<lambda>g t m a. True),
      NSR_ModifyMinpoll = (\<lambda>a v. True),
      NSR_ModifyMaxpoll = (\<lambda>a v. True),
      NSR_ModifyMaxdelay = (\<lambda>a v. True),
      NSR_ModifyMaxdelayratio = (\<lambda>a v. True),
      NSR_ModifyMaxdelaydevratio = (\<lambda>a v. True),
      NSR_ModifyMinstratum = (\<lambda>a v. True),
      NSR_ModifyPolltarget = (\<lambda>a v. True),
      NSR_AddSource = (\<lambda>a t p. NSR_Success),
      NSR_RemoveSource = (\<lambda>a. NSR_Success),
      NSR_ReportSource = (\<lambda>r t. r),
      NSR_GetActivityReport =
        \<lparr>act_online = 0, act_offline = 0, act_burst_online = 0, act_burst_offline = 0,
         act_unresolved = 0\<rparr>\<rparr>"

definition src0 :: sources where
  "src0 =
     \<lparr>SRC_ReadNumberOfSources = 1,
      SRC_ReportSource = (\<lambda>i t. None),
      SRC_GetType = (\<lambda>i. SRC_NTP),
      SRC_ReportSourcestats = (\<lambda>i t. None),
      RCL_ReportSource = (\<lambda>r t. r),
      REF_GetTrackingReport =
        \<lparr>tr_ref_id = 0, tr_ip_addr = IPADDR_UNSPEC, tr_stratum = 0, tr_leap_status = 0,
         tr_ref_time = \<lparr>tv_sec = 0, tv_usec = 0\<rparr>, tr_current_correction = 0,
         tr_last_offset = 0, tr_rms_offset = 0, tr_freq_ppm = 0, tr_resid_freq_ppm = 0,
         tr_skew_ppm = 0, tr_root_delay = 0, tr_root_dispersion = 0,
         tr_last_update_interval = 0\<rparr>,
      NCR_AddAccessRestriction = (\<lambda>a b allow all. True),
      NCR_CheckAccessRestriction = (\<lambda>a. True)\<rparr>"

definition client_report0 :: RPT_ClientAccessByIndex_Report where
  "client_report0 =
     \<lparr>ca_ip_addr = IPADDR_UNSPEC, ca_client_hits = 0, ca_peer_hits = 0,
      ca_cmd_hits_auth = 0, ca_cmd_hits_normal = 0, ca_cmd_hits_bad = 0,
      ca_last_ntp_hit_ago = 0, ca_last_cmd_hit_ago = 0\<rparr>"

definition clk0 :: clocks where
  "clk0 =
     \<lparr>MNL_IsEnabled = False,
      MNL_AcceptTimestamp = (\<lambda>t. None),
      MNL_ReportSamples = [],
      MNL_DeleteSample = (\<lambda>i. True),
      LCL_MakeStep = True,
      RTC_WriteParameters = RTC_ST_OK,
      RTC_GetReport = None,
      RTC_Trim = True,
      SMT_IsEnabled = False,
      SMT_GetSmoothingReport = (\<lambda>t. None),
      CLG_GetClientAccessReportByIndex = (\<lambda>i now.
        if i = 2 \<or> i = 5 then (CLG_SUCCESS, client_report0, 6)
        else (CLG_INDEXTOOLARGE, client_report0, 6)),
      SCH_GetLastEventTime = (\<lparr>tv_sec = 100, tv_usec = 0\<rparr>, \<lparr>tv_sec = 100, tv_usec = 0\<rparr>)\<rparr>"

definition env0 :: "(IPAddr list) env" where
  "env0 = \<lparr>candm = candm0, pkl = pkl0, uti = uti0, adf = adf0, nsr = nsr0, src = src0,
           clk = clk0, sizeof_where_from = 110, sizeof_sa_family = 2\<rparr>"

definition sockets0 :: sockets where
  "sockets0 = \<lparr>sock_fdu = 5, sock_fd4 = 3, sock_fd6 = 4\<rparr>"

definition request0 :: "nat \<Rightarrow> CMD_Request" where
  "request0 c = \<lparr>version = 6, pkt_type = 1, res1 = 0, res2 = 0, command = of_nat c,
                 attempt = 0, sequence = 7, data = (\<lambda>i. 0)\<rparr>"

definition from_remote4 :: sockaddr_all where
  "from_remote4 = \<lparr>sa_family = AF_INET, sa_data = [0, 123, 192, 0, 2, 1]\<rparr>"

definition from_loopback4 :: sockaddr_all where
  "from_loopback4 = \<lparr>sa_family = AF_INET, sa_data = [0, 123, 127, 0, 0, 1]\<rparr>"

definition from_unix :: sockaddr_all where
  "from_unix = \<lparr>sa_family = AF_UNIX, sa_data = []\<rparr>"

definition datagram0 :: "sockaddr_all \<Rightarrow> CMD_Request \<Rightarrow> datagram" where
  "datagram0 from rx = \<lparr>recv_status = 40, from_length = 16, where_from = from, rx_message = rx\<rparr>"


text \<open>
  A request for a page of \<open>n\<close> clients from index 0, the template of its reply, and the
  environment in which the log of clients is inactive. In the environment above the log
  has rows at the indices 2 and 5 and reports 6 indices.
\<close>
definition page_request :: "nat \<Rightarrow> CMD_Request" where
  "page_request n =
     (request0 REQ_CLIENT_ACCESSES_BY_INDEX)\<lparr>data := (\<lambda>i. if i = 7 then of_nat n else 0)\<rparr>"

definition env_inactive :: "(IPAddr list) env" where
  "env_inactive =
     env0\<lparr>clk := clk0\<lparr>CLG_GetClientAccessReportByIndex :=
                         (\<lambda>i now. (CLG_INACTIVE, client_report0, 0))\<rparr>\<rparr>"

definition template0 :: "nat \<Rightarrow> (IPAddr list) hstate" where
  "template0 n = h0 env0 [] (datagram0 from_unix (page_request n))"




section \<open>Theorems\<close>

lemmas env0_defs = env0_def candm0_def pkl0_def uti0_def adf0_def nsr0_def src0_def clk0_def
  sockets0_def request0_def from_remote4_def from_loopback4_def from_unix_def datagram0_def
  lookup_def be32_def client_report0_def

lemma read_valid:
  assumes "passes_validation E S tbl sock_fd dg localhost"
  shows "read_from_cmd_socket E S tbl sock_fd dg =
           run_command E S sock_fd dg localhost (unat (command (rx_message dg)))
             (template_reply E (rx_message dg))
             (CLG_LogCommandAccess (remote_ip_of E dg) CLG_CMD_NORMAL
                (tv_sec (fst (SCH_GetLastEventTime (clk E)))) (out0 tbl))"
  using assms
  unfolding passes_validation_def passes_access_def header_sane_def read_from_cmd_socket_def
    remote_ip_of_def out0_def
  by (simp add: Let_def case_prod_beta)




lemma transmit_recognized:
  "recognized (where_from dg) \<Longrightarrow>
   transmit_reply E S msg (where_from dg) out = out\<lparr>sent := sent out @ [reply_to E S dg msg]\<rparr>"
  by (auto simp add: transmit_reply_def recognized_def reply_to_def)

lemma not_local_check:
  assumes "\<not> local_origin E dg"
  shows "check_localhost S sock_fd (where_from dg) (remote_ip_of E dg) \<noteq> Goes True"
  using assms
  by (auto simp add: local_origin_def check_localhost_def split: IPAddr.splits if_splits)


lemmas dispatch_defs = read_from_cmd_socket_def run_command_def check_localhost_def
  check_authority_def transmit_reply_def CLG_LogCommandAccess_def template_reply_def
  permissions_def switch_rx_command_def do_it_def N_REQUEST_TYPES_def INADDR_LOOPBACK_def
  call_def tx_status_def tx_reply_def tx_store_def tx_stores_def assert_0_def Let_def


lemma sent_transmit_le:
  "length (sent (transmit_reply E S msg to out)) \<le> Suc (length (sent out))"
  by (simp add: transmit_reply_def split: sa_family_t.splits)

lemma sent_run_command_le:
  "length (sent (run_command E S sock_fd dg localhost c tx out)) \<le> Suc (length (sent out))"
proof -
  have "length (sent (transmit_reply E S msg to (out\<lparr>invoked := i, called := k, table := t\<rparr>)))
          \<le> Suc (length (sent out))" for msg to i k t
    using sent_transmit_le [of E S msg to "out\<lparr>invoked := i, called := k, table := t\<rparr>"]
    by simp
  then show ?thesis
    by (simp add: run_command_def Let_def case_prod_beta do_it_def split: step.splits)
qed

lemma sent_read_le: "length (sent (read_from_cmd_socket E S tbl sock_fd dg)) \<le> 1"
proof -
  have t: "length (sent (transmit_reply E S msg to
             (CLG_LogCommandAccess a b c
                \<lparr>sent = [], logged = [], invoked = [], called = [], table = tbl,
                 aborted = False\<rparr>))) \<le> Suc 0" for msg to a b c
    using sent_transmit_le [of E S msg to "CLG_LogCommandAccess a b c
                \<lparr>sent = [], logged = [], invoked = [], called = [], table = tbl,
                 aborted = False\<rparr>"]
    by (simp add: CLG_LogCommandAccess_def)
  have r: "length (sent (run_command E S sock_fd dg localhost c tx
             (CLG_LogCommandAccess a b d
                \<lparr>sent = [], logged = [], invoked = [], called = [], table = tbl,
                 aborted = False\<rparr>))) \<le> Suc 0" for localhost c tx a b d
    using sent_run_command_le [of E S sock_fd dg localhost c tx "CLG_LogCommandAccess a b d
                \<lparr>sent = [], logged = [], invoked = [], called = [], table = tbl,
                 aborted = False\<rparr>"]
    by (simp add: CLG_LogCommandAccess_def)
  have s: "sent (CLG_LogCommandAccess a b c
                \<lparr>sent = [], logged = [], invoked = [], called = [], table = tbl,
                 aborted = False\<rparr>) = []" for a b c
    by (simp add: CLG_LogCommandAccess_def)
  show ?thesis
    by (simp add: read_from_cmd_socket_def Let_def case_prod_beta t r s split: step.splits)
qed


lemma run_command_allowed:
  assumes "c < N_REQUEST_TYPES"
    and "check_authority S sock_fd (where_from dg) localhost c = Goes True"
    and "map_of switch_rx_command c = Some (Handler name handle)"
    and "recognized (where_from dg)"
  shows "run_command E S sock_fd dg localhost c (template_reply E (rx_message dg)) out =
           (let h = handle E (rx_message dg) (h0 E (table out) dg)
            in out\<lparr>sent := sent out @
                       (if failed_assert h then [] else [reply_to E S dg (tx_message h)]),
                    invoked := invoked out @ [name],
                    called := called out @ calls h,
                    table := access_auth_table h,
                    aborted := aborted out \<or> failed_assert h\<rparr>)"
  using assms
  by (simp add: run_command_def Let_def do_it_def h0_def transmit_recognized)


lemma check_authority_goes:
  "check_authority S sock_fd from localhost c \<noteq> Returns"
  by (simp add: check_authority_def split: permission.splits)

lemma run_command_shape:
  assumes "recognized (where_from dg)" and "sent out = []" and "invoked out = []"
    and "\<not> aborted out"
  shows "length (invoked (run_command E S sock_fd dg localhost c tx out)) \<le> 1 \<and>
         (\<not> aborted (run_command E S sock_fd dg localhost c tx out) \<longrightarrow>
            length (sent (run_command E S sock_fd dg localhost c tx out)) = 1)"
  using assms check_authority_goes [of S sock_fd "where_from dg" localhost c]
  by (simp add: run_command_def Let_def do_it_def transmit_recognized case_prod_beta assert_0_def
      split: step.splits option.splits switch_case.splits)


subsection \<open>The loop of the page of client accesses\<close>

lemma rd_simps:
  "rd (tx_store f v h) g = (if g = f then Some v else rd h g)"
  "rd (tx_status s h) g = rd h g"
  "rd (tx_reply r h) g = rd h g"
  "rd (call c args h) g = rd h g"
  "rd (assert_0 h) g = rd h g"
  by (simp_all add: rd_def tx_store_def tx_status_def tx_reply_def call_def assert_0_def)

lemma rd_tx_stores:
  "rd (tx_stores fvs h) g = (case map_of (rev fvs) g of Some v \<Rightarrow> Some v | None \<Rightarrow> rd h g)"
proof (induction fvs arbitrary: h)
  case Nil
  then show ?case by (simp add: tx_stores_def)
next
  case (Cons fv fvs)
  have "tx_stores (fv # fvs) h = tx_stores fvs (tx_store (fst fv) (snd fv) h)"
    by (simp add: tx_stores_def case_prod_beta)
  then show ?case
    using Cons [of "tx_store (fst fv) (snd fv) h"]
    by (cases fv) (auto simp add: rd_simps map_of_append split: option.splits)
qed

lemma hs_simps:
  "status (tx_message (tx_store f v h)) = status (tx_message h)"
  "reply (tx_message (tx_store f v h)) = reply (tx_message h)"
  "status (tx_message (call c args h)) = status (tx_message h)"
  "reply (tx_message (call c args h)) = reply (tx_message h)"
  "calls (tx_store f v h) = calls h"
  "calls (tx_status s h) = calls h"
  "calls (tx_reply r h) = calls h"
  "calls (call c args h) = calls h @ [(c, args)]"
  "status (tx_message (tx_status s h)) = s"
  "reply (tx_message (tx_status s h)) = reply (tx_message h)"
  "status (tx_message (tx_reply r h)) = status (tx_message h)"
  "reply (tx_message (tx_reply r h)) = r"
  by (simp_all add: tx_store_def tx_status_def tx_reply_def call_def)

lemma hs_tx_stores:
  "status (tx_message (tx_stores fvs h)) = status (tx_message h)"
  "reply (tx_message (tx_stores fvs h)) = reply (tx_message h)"
  "calls (tx_stores fvs h) = calls h"
  by (induction fvs arbitrary: h; simp add: tx_stores_def case_prod_beta hs_simps)+

lemma loop_keeps_slot:
  "k < j \<Longrightarrow>
   rd (client_accesses_loop E first now n i j h) (Arr a k f) = rd h (Arr a k f)"
proof (induction E first now n i j h rule: client_accesses_loop.induct)
  case (1 E first now n i j h)
  show ?case
    apply (subst client_accesses_loop.simps)
    using 1
    apply (auto simp add: rd_simps rd_tx_stores Let_def split: prod.splits CLG_Status.splits)
    done
qed

lemma loop_done:
  "\<not> i < n \<Longrightarrow>
   client_accesses_loop E first now n i j h =
     tx_store (Fld ''client_accesses_by_index.n_clients'') (V32 (of_nat j))
       (tx_store (Fld ''client_accesses_by_index.next_index'') (V32 (first + of_nat i)) h)"
  by (subst client_accesses_loop.simps) simp

lemma loop_success:
  "i < n \<Longrightarrow>
   CLG_GetClientAccessReportByIndex (clk E) (first + of_nat i) now = (CLG_SUCCESS, report, nt) \<Longrightarrow>
   client_accesses_loop E first now n i j h =
     client_accesses_loop E first now n (Suc i) (Suc j)
       (tx_stores (client_row E j report)
          (tx_store (Fld ''client_accesses_by_index.n_indices'') (V32 nt)
             (call (fst (queried first now i)) (snd (queried first now i)) h)))"
  by (subst client_accesses_loop.simps) (simp add: client_row_def queried_def)

lemma loop_toolarge:
  "i < n \<Longrightarrow>
   CLG_GetClientAccessReportByIndex (clk E) (first + of_nat i) now
     = (CLG_INDEXTOOLARGE, report, nt) \<Longrightarrow>
   client_accesses_loop E first now n i j h =
     client_accesses_loop E first now n (Suc i) j
       (tx_store (Fld ''client_accesses_by_index.n_indices'') (V32 nt)
          (call (fst (queried first now i)) (snd (queried first now i)) h))"
  by (subst client_accesses_loop.simps) (simp add: queried_def)

lemma loop_inactive:
  "i < n \<Longrightarrow>
   CLG_GetClientAccessReportByIndex (clk E) (first + of_nat i) now
     = (CLG_INACTIVE, report, nt) \<Longrightarrow>
   client_accesses_loop E first now n i j h =
     tx_status STT_INACTIVE
       (tx_store (Fld ''client_accesses_by_index.n_indices'') (V32 nt)
          (call (fst (queried first now i)) (snd (queried first now i)) h))"
  by (subst client_accesses_loop.simps) (simp add: queried_def)

lemma handle_page:
  "handle_client_accesses_by_index E rx h =
     client_accesses_loop E (page_first E rx) (page_now E) (page_count E rx) 0 0
       (tx_reply RPY_CLIENT_ACCESSES_BY_INDEX h)"
  by (simp add: handle_client_accesses_by_index_def page_first_def page_now_def page_count_def
      Let_def min_def)

lemma loop_active:
  assumes "\<forall>i'. i \<le> i' \<and> i' < n \<longrightarrow> row_ok E first now i' \<or> row_skipped E first now i'"
    and "i \<le> n"
  shows "status (tx_message (client_accesses_loop E first now n i j h)) = status (tx_message h) \<and>
         reply (tx_message (client_accesses_loop E first now n i j h)) = reply (tx_message h) \<and>
         calls (client_accesses_loop E first now n i j h)
           = calls h @ map (queried first now) [i..<n] \<and>
         rd (client_accesses_loop E first now n i j h)
            (Fld ''client_accesses_by_index.next_index'') = Some (V32 (first + of_nat n)) \<and>
         rd (client_accesses_loop E first now n i j h)
            (Fld ''client_accesses_by_index.n_clients'')
           = Some (V32 (of_nat (j + length (filter (row_ok E first now) [i..<n]))))"
  using assms
proof (induction "n - i" arbitrary: i j h)
  case 0
  then have "i = n" by simp
  then show ?case
    by (simp add: loop_done rd_simps hs_simps)
next
  case (Suc m)
  then have lt: "i < n" and m: "m = n - Suc i" and le: "Suc i \<le> n"
    by simp_all
  have rest: "\<forall>i'. Suc i \<le> i' \<and> i' < n \<longrightarrow> row_ok E first now i' \<or> row_skipped E first now i'"
    using Suc.prems(1) by simp
  have up: "[i..<n] = i # [Suc i..<n]"
    using lt by (simp add: upt_conv_Cons)
  obtain result report nt where
    r: "CLG_GetClientAccessReportByIndex (clk E) (first + of_nat i) now = (result, report, nt)"
    by (cases "CLG_GetClientAccessReportByIndex (clk E) (first + of_nat i) now") auto
  from Suc.prems(1) lt have "row_ok E first now i \<or> row_skipped E first now i"
    by simp
  then show ?case
  proof
    assume ok: "row_ok E first now i"
    with r have r': "CLG_GetClientAccessReportByIndex (clk E) (first + of_nat i) now
                       = (CLG_SUCCESS, report, nt)"
      by (simp add: row_ok_def)
    show ?thesis
      unfolding loop_success [OF lt r']
      using Suc.hyps(1) [OF m rest le, of "Suc j"] ok
      by (simp add: up hs_simps hs_tx_stores)
  next
    assume sk: "row_skipped E first now i"
    with r have r': "CLG_GetClientAccessReportByIndex (clk E) (first + of_nat i) now
                       = (CLG_INDEXTOOLARGE, report, nt)"
      by (simp add: row_skipped_def)
    from sk have nok: "\<not> row_ok E first now i"
      by (simp add: row_ok_def row_skipped_def)
    show ?thesis
      unfolding loop_toolarge [OF lt r']
      using Suc.hyps(1) [OF m rest le, of j] nok
      by (simp add: up hs_simps)
  qed
qed

lemma packed_stored: "packed E (tx_stores (client_row E j report) h) j report"
  by (simp add: packed_def rd_tx_stores client_row_def)

lemma packed_kept:
  "packed E (client_accesses_loop E first now n i (Suc j) h) j report = packed E h j report"
  by (simp add: packed_def client_row_def loop_keeps_slot)

lemma loop_rows:
  assumes "\<forall>i'. i \<le> i' \<and> i' < n \<longrightarrow> row_ok E first now i' \<or> row_skipped E first now i'"
    and "i \<le> n"
    and "k < length (filter (row_ok E first now) [i..<n])"
  shows "packed E (client_accesses_loop E first now n i j h) (j + k)
           (fst (snd (CLG_GetClientAccessReportByIndex (clk E)
              (first + of_nat (filter (row_ok E first now) [i..<n] ! k)) now)))"
  using assms
proof (induction "n - i" arbitrary: i j h k)
  case 0
  then show ?case by simp
next
  case (Suc m)
  then have lt: "i < n" and m: "m = n - Suc i" and le: "Suc i \<le> n"
    by simp_all
  have rest: "\<forall>i'. Suc i \<le> i' \<and> i' < n \<longrightarrow> row_ok E first now i' \<or> row_skipped E first now i'"
    using Suc.prems(1) by simp
  have up: "[i..<n] = i # [Suc i..<n]"
    using lt by (simp add: upt_conv_Cons)
  obtain result report nt where
    r: "CLG_GetClientAccessReportByIndex (clk E) (first + of_nat i) now = (result, report, nt)"
    by (cases "CLG_GetClientAccessReportByIndex (clk E) (first + of_nat i) now") auto
  from Suc.prems(1) lt have "row_ok E first now i \<or> row_skipped E first now i"
    by simp
  then show ?case
  proof
    assume ok: "row_ok E first now i"
    with r have r': "CLG_GetClientAccessReportByIndex (clk E) (first + of_nat i) now
                       = (CLG_SUCCESS, report, nt)"
      by (simp add: row_ok_def)
    show ?thesis
    proof (cases k)
      case 0
      then show ?thesis
        unfolding loop_success [OF lt r']
        using ok by (simp add: up packed_kept packed_stored r')
    next
      case (Suc k')
      with Suc.prems(3) ok have "k' < length (filter (row_ok E first now) [Suc i..<n])"
        by (simp add: up)
      from Suc.hyps(1) [OF m rest le this, of "Suc j"] show ?thesis
        unfolding loop_success [OF lt r']
        using ok Suc by (simp add: up)
    qed
  next
    assume sk: "row_skipped E first now i"
    with r have r': "CLG_GetClientAccessReportByIndex (clk E) (first + of_nat i) now
                       = (CLG_INDEXTOOLARGE, report, nt)"
      by (simp add: row_skipped_def)
    from sk have nok: "\<not> row_ok E first now i"
      by (simp add: row_ok_def row_skipped_def)
    with Suc.prems(3) have "k < length (filter (row_ok E first now) [Suc i..<n])"
      by (simp add: up)
    from Suc.hyps(1) [OF m rest le this, of j] show ?thesis
      unfolding loop_toolarge [OF lt r']
      using nok by (simp add: up)
  qed
qed

lemma loop_n_indices:
  assumes "\<forall>i'. i \<le> i' \<and> i' < n \<longrightarrow> row_ok E first now i' \<or> row_skipped E first now i'"
    and "i < n"
  shows "rd (client_accesses_loop E first now n i j h)
            (Fld ''client_accesses_by_index.n_indices'')
           = Some (V32 (snd (snd (CLG_GetClientAccessReportByIndex (clk E)
                                    (first + of_nat (n - 1)) now))))"
  using assms
proof (induction "n - i" arbitrary: i j h)
  case 0
  then show ?case by simp
next
  case (Suc m)
  then have lt: "i < n" and m: "m = n - Suc i"
    by simp_all
  have rest: "\<forall>i'. Suc i \<le> i' \<and> i' < n \<longrightarrow> row_ok E first now i' \<or> row_skipped E first now i'"
    using Suc.prems(1) by simp
  obtain result report nt where
    r: "CLG_GetClientAccessReportByIndex (clk E) (first + of_nat i) now = (result, report, nt)"
    by (cases "CLG_GetClientAccessReportByIndex (clk E) (first + of_nat i) now") auto
  have last: "rd (client_accesses_loop E first now n (Suc i) j' h')
                 (Fld ''client_accesses_by_index.n_indices'')
                = Some (V32 (snd (snd (CLG_GetClientAccessReportByIndex (clk E)
                                    (first + of_nat (n - 1)) now))))"
    if "rd h' (Fld ''client_accesses_by_index.n_indices'') = Some (V32 nt)" for j' h'
  proof (cases "Suc i < n")
    case True
    from Suc.hyps(1) [OF m rest True] show ?thesis .
  next
    case False
    with lt have e: "n - Suc 0 = i" by simp
    from False show ?thesis
      by (simp add: loop_done rd_simps that e r)
  qed
  from Suc.prems(1) lt have "row_ok E first now i \<or> row_skipped E first now i"
    by simp
  then show ?case
  proof
    assume "row_ok E first now i"
    with r have r': "CLG_GetClientAccessReportByIndex (clk E) (first + of_nat i) now
                       = (CLG_SUCCESS, report, nt)"
      by (simp add: row_ok_def)
    show ?thesis
      unfolding loop_success [OF lt r']
      by (rule last) (simp add: rd_tx_stores rd_simps client_row_def)
  next
    assume "row_skipped E first now i"
    with r have r': "CLG_GetClientAccessReportByIndex (clk E) (first + of_nat i) now
                       = (CLG_INDEXTOOLARGE, report, nt)"
      by (simp add: row_skipped_def)
    show ?thesis
      unfolding loop_toolarge [OF lt r']
      by (rule last) (simp add: rd_simps)
  qed
qed

lemma env0_values:
  "macro (candm env0) ''MAX_CLIENT_ACCESSES'' = 8"
  "offsetof (candm env0) ''client_accesses_by_index.first_index'' = 0"
  "offsetof (candm env0) ''client_accesses_by_index.n_indices'' = 4"
  "SCH_GetLastEventTime (clk env0)
     = (\<lparr>tv_sec = 100, tv_usec = 0\<rparr>, \<lparr>tv_sec = 100, tv_usec = 0\<rparr>)"
  "CLG_GetClientAccessReportByIndex (clk env0) i now =
     (if i = 2 \<or> i = 5 then (CLG_SUCCESS, client_report0, 6)
      else (CLG_INDEXTOOLARGE, client_report0, 6))"
  by (simp_all add: env0_def candm0_def clk0_def lookup_def)

lemma env_inactive_values:
  "macro (candm env_inactive) ''MAX_CLIENT_ACCESSES'' = 8"
  "offsetof (candm env_inactive) ''client_accesses_by_index.first_index'' = 0"
  "offsetof (candm env_inactive) ''client_accesses_by_index.n_indices'' = 4"
  "SCH_GetLastEventTime (clk env_inactive)
     = (\<lparr>tv_sec = 100, tv_usec = 0\<rparr>, \<lparr>tv_sec = 100, tv_usec = 0\<rparr>)"
  "CLG_GetClientAccessReportByIndex (clk env_inactive) i now
     = (CLG_INACTIVE, client_report0, 0)"
  by (simp_all add: env_inactive_def env0_def candm0_def clk0_def lookup_def)

lemma page_request_fields:
  "ntohl_at (data (page_request n)) 0 = 0"
  "unat (ntohl_at (data (page_request 0)) 4) = 0"
  "unat (ntohl_at (data (page_request 2)) 4) = 2"
  "unat (ntohl_at (data (page_request 8)) 4) = 8"
  "unat (ntohl_at (data (page_request 9)) 4) = 9"
  by (simp_all add: ntohl_at_def page_request_def)

lemma upt_8: "[0..<8] = [0, 1, 2, 3, 4, 5, 6, 7]"
  by (simp add: upt_rec)

lemma page_values:
  "page_first env0 (page_request n) = 0"
  "page_first env_inactive (page_request n) = 0"
  "page_now env0 = 100"
  "page_now env_inactive = 100"
  "page_count env0 (page_request 8) = 8"
  "page_count env0 (page_request 9) = 8"
  "page_count env_inactive (page_request 0) = 0"
  "page_count env_inactive (page_request 2) = 2"
  by (simp_all add: page_count_def page_first_def page_now_def rx_u32_def env0_values
      env_inactive_values page_request_fields)

lemma env0_rows:
  "row_ok env0 0 100 i \<longleftrightarrow> (of_nat i :: u32) = 2 \<or> (of_nat i :: u32) = 5"
  "row_ok env0 0 100 i \<or> row_skipped env0 0 100 i"
  by (simp_all add: row_ok_def row_skipped_def env0_values)

lemma page_rows_8: "page_rows env0 (page_request 8) = [2, 5]"
  by (simp add: page_rows_def page_values env0_rows upt_8)


lemma table_logged [simp]: "table (CLG_LogCommandAccess a b c out) = table out"
  by (simp add: CLG_LogCommandAccess_def)

lemma table_out0 [simp]: "table (out0 tbl) = tbl"
  by (simp add: out0_def)




text \<open>
  Claim C2. A datagram whose origin is not local and is not allowed by the table of the
  module is dropped at once: nothing is sent, \<^verbatim>\<open>CLG_LogCommandAccess\<close> is not called, no
  handler and no other module is called, and the table is as it was.
\<close>
theorem denied_origin_dropped:
  assumes "\<not> local_origin E dg"
    and "\<not> ADF_IsAllowed (adf E) tbl (remote_ip_of E dg)"
  shows "sent (read_from_cmd_socket E S tbl sock_fd dg) = [] \<and>
         logged (read_from_cmd_socket E S tbl sock_fd dg) = [] \<and>
         invoked (read_from_cmd_socket E S tbl sock_fd dg) = [] \<and>
         called (read_from_cmd_socket E S tbl sock_fd dg) = [] \<and>
         table (read_from_cmd_socket E S tbl sock_fd dg) = tbl"
proof (cases "check_localhost S sock_fd (where_from dg) (remote_ip_of E dg)")
  case Returns
  then show ?thesis
    by (simp add: read_from_cmd_socket_def Let_def case_prod_beta remote_ip_of_def)
next
  case Asserts
  then show ?thesis
    by (simp add: read_from_cmd_socket_def Let_def case_prod_beta remote_ip_of_def)
next
  case (Goes localhost)
  with not_local_check [OF assms(1), of S sock_fd] have "\<not> localhost"
    by auto
  with Goes assms(2) show ?thesis
    by (simp add: read_from_cmd_socket_def Let_def case_prod_beta remote_ip_of_def)
qed

theorem denied_origin_dropped_witness:
  "read_from_cmd_socket env0 sockets0 [] 3 (datagram0 from_remote4 (request0 REQ_NULL)) =
     \<lparr>sent = [], logged = [], invoked = [], called = [], table = [], aborted = False\<rparr>"
proof -
  have l: "\<not> local_origin env0 (datagram0 from_remote4 (request0 REQ_NULL))"
    by (simp add: local_origin_def remote_ip_of_def env0_defs INADDR_LOOPBACK_def)
  have a: "\<not> ADF_IsAllowed (adf env0) [] (remote_ip_of env0 (datagram0 from_remote4 (request0 REQ_NULL)))"
    by (simp add: env0_defs)
  have "aborted (read_from_cmd_socket env0 sockets0 [] 3 (datagram0 from_remote4 (request0 REQ_NULL))) = False"
   by (simp add: read_from_cmd_socket_def check_localhost_def env0_defs Let_def INADDR_LOOPBACK_def) 
  with denied_origin_dropped [OF l a, of sockets0 3] show ?thesis
    by (simp add: outcome.equality)
qed

text \<open>
  Claim C3. A request that passes the access filter and the check of the header, and whose
  version is not the current one, is logged as a bad packet; it is answered, by one reply
  with the status \<^verbatim>\<open>STT_BADPKTVERSION\<close>, the reply type \<^verbatim>\<open>RPY_NULL\<close> and the sequence
  number of the request, exactly when its version is at least
  \<^verbatim>\<open>PROTO_VERSION_MISMATCH_COMPAT_SERVER\<close>, and otherwise nothing is sent.
\<close>
theorem version_mismatch:
  assumes "passes_access E S tbl sock_fd dg localhost"
    and "header_sane E dg"
    and "recognized (where_from dg)"
    and "unat (version (rx_message dg)) \<noteq> macro (candm E) ''PROTO_VERSION_NUMBER''"
  shows "read_from_cmd_socket E S tbl sock_fd dg =
           \<lparr>sent = (if macro (candm E) ''PROTO_VERSION_MISMATCH_COMPAT_SERVER''
                        \<le> unat (version (rx_message dg))
                    then [reply_to E S dg
                            ((template_reply E (rx_message dg))\<lparr>status := STT_BADPKTVERSION\<rparr>)]
                    else []),
            logged = [(remote_ip_of E dg, CLG_CMD_BAD_PKT,
                       tv_sec (fst (SCH_GetLastEventTime (clk E))))],
            invoked = [], called = [], table = tbl, aborted = False\<rparr>
         \<and> reply (template_reply E (rx_message dg)) = RPY_NULL
         \<and> reply_sequence (template_reply E (rx_message dg)) = sequence (rx_message dg)"
  using assms
  unfolding passes_access_def header_sane_def read_from_cmd_socket_def remote_ip_of_def
  by (simp add: Let_def case_prod_beta transmit_recognized CLG_LogCommandAccess_def
      template_reply_def)


lemma unix_old_version_access:
  "passes_access env0 sockets0 [] 5
     (datagram0 from_unix ((request0 REQ_NULL)\<lparr>version := 5\<rparr>)) True"
  by (simp add: passes_access_def check_localhost_def remote_ip_of_def env0_defs)

lemma unix_old_version_header:
  "header_sane env0 (datagram0 from_unix ((request0 REQ_NULL)\<lparr>version := 5\<rparr>))"
  by (simp add: header_sane_def env0_defs)

theorem version_mismatch_witness:
  "read_from_cmd_socket env0 sockets0 [] 5
     (datagram0 from_unix ((request0 REQ_NULL)\<lparr>version := 5\<rparr>)) =
     \<lparr>sent = [(5, from_unix,
               \<lparr>reply_version = 6, reply_pkt_type = 2, reply_res1 = 0, reply_res2 = 0,
                reply_command = 0, reply = RPY_NULL, status = STT_BADPKTVERSION, pad1 = 0,
                pad2 = 0, pad3 = 0, reply_sequence = 7, pad4 = 0, pad5 = 0,
                reply_data = Map.empty\<rparr>,
               28)],
      logged = [(IPADDR_UNSPEC, CLG_CMD_BAD_PKT, 100)],
      invoked = [], called = [], table = [], aborted = False\<rparr>"
proof -
  have r: "recognized (where_from
             (datagram0 from_unix ((request0 REQ_NULL)\<lparr>version := 5\<rparr>)))"
    by (simp add: recognized_def datagram0_def from_unix_def)
  have v: "unat (version (rx_message
             (datagram0 from_unix ((request0 REQ_NULL)\<lparr>version := 5\<rparr>))))
           \<noteq> macro (candm env0) ''PROTO_VERSION_NUMBER''"
    by (simp add: env0_defs)
  show ?thesis
    using version_mismatch [OF unix_old_version_access unix_old_version_header r v]
    by (simp add: template_reply_def remote_ip_of_def reply_to_def env0_defs REQ_defs)
qed

text \<open>
  Claim C4. A request that passes the access filter and the check of the header and has
  the current version is answered by exactly one reply and logged as a bad packet when
  its command is not below \<^verbatim>\<open>N_REQUEST_TYPES\<close>, with the status \<^verbatim>\<open>STT_INVALID\<close>, and
  otherwise when fewer bytes were read than the command needs, with the status
  \<^verbatim>\<open>STT_BADPKTLENGTH\<close>; the reply has the command and the sequence number of the request.
\<close>
theorem bad_command_or_length:
  assumes "passes_access E S tbl sock_fd dg localhost"
    and "header_sane E dg"
    and "recognized (where_from dg)"
    and "unat (version (rx_message dg)) = macro (candm E) ''PROTO_VERSION_NUMBER''"
    and "N_REQUEST_TYPES \<le> unat (command (rx_message dg)) \<or>
         nat (recv_status dg) < PKL_CommandLength (pkl E) (rx_message dg)"
  shows "read_from_cmd_socket E S tbl sock_fd dg =
           \<lparr>sent = [reply_to E S dg
                      ((template_reply E (rx_message dg))
                         \<lparr>status := (if N_REQUEST_TYPES \<le> unat (command (rx_message dg))
                                     then STT_INVALID else STT_BADPKTLENGTH)\<rparr>)],
            logged = [(remote_ip_of E dg, CLG_CMD_BAD_PKT,
                       tv_sec (fst (SCH_GetLastEventTime (clk E))))],
            invoked = [], called = [], table = tbl, aborted = False\<rparr>
         \<and> reply_command (template_reply E (rx_message dg)) = command (rx_message dg)
         \<and> reply_sequence (template_reply E (rx_message dg)) = sequence (rx_message dg)"
  using assms
  unfolding passes_access_def header_sane_def read_from_cmd_socket_def remote_ip_of_def
  by (auto simp add: Let_def case_prod_beta transmit_recognized CLG_LogCommandAccess_def
      template_reply_def)


lemma loopback_access:
  "passes_access env0 sockets0 [] 3 (datagram0 from_loopback4 rx\<lparr>recv_status := n\<rparr>) True
     \<longleftrightarrow> 0 \<le> n"
  by (simp add: passes_access_def check_localhost_def remote_ip_of_def env0_defs
      INADDR_LOOPBACK_def)

lemma loopback_header:
  "header_sane env0 (datagram0 from_loopback4 (request0 c)\<lparr>recv_status := 30\<rparr>)"
  by (simp add: header_sane_def env0_defs)

theorem bad_command_or_length_witness:
  "read_from_cmd_socket env0 sockets0 [] 3
     (datagram0 from_loopback4 (request0 54)\<lparr>recv_status := 30\<rparr>) =
     \<lparr>sent = [(3, from_loopback4,
               \<lparr>reply_version = 6, reply_pkt_type = 2, reply_res1 = 0, reply_res2 = 0,
                reply_command = 54, reply = RPY_NULL, status = STT_INVALID, pad1 = 0,
                pad2 = 0, pad3 = 0, reply_sequence = 7, pad4 = 0, pad5 = 0,
                reply_data = Map.empty\<rparr>,
               28)],
      logged = [(IPADDR_INET4 0x7f000001, CLG_CMD_BAD_PKT, 100)],
      invoked = [], called = [], table = [], aborted = False\<rparr>
   \<and> read_from_cmd_socket env0 sockets0 [] 3
     (datagram0 from_loopback4 (request0 REQ_TRACKING)\<lparr>recv_status := 30\<rparr>) =
     \<lparr>sent = [(3, from_loopback4,
               \<lparr>reply_version = 6, reply_pkt_type = 2, reply_res1 = 0, reply_res2 = 0,
                reply_command = 33, reply = RPY_NULL, status = STT_BADPKTLENGTH, pad1 = 0,
                pad2 = 0, pad3 = 0, reply_sequence = 7, pad4 = 0, pad5 = 0,
                reply_data = Map.empty\<rparr>,
               28)],
      logged = [(IPADDR_INET4 0x7f000001, CLG_CMD_BAD_PKT, 100)],
      invoked = [], called = [], table = [], aborted = False\<rparr>"
proof -
  have a: "passes_access env0 sockets0 [] 3
             (datagram0 from_loopback4 (request0 c)\<lparr>recv_status := 30\<rparr>) True" for c
    by (simp add: loopback_access)
  have r: "recognized (where_from (datagram0 from_loopback4 (request0 c)\<lparr>recv_status := 30\<rparr>))"
    for c
    by (simp add: recognized_def datagram0_def from_loopback4_def)
  have v: "unat (version (rx_message
             (datagram0 from_loopback4 (request0 c)\<lparr>recv_status := 30\<rparr>)))
           = macro (candm env0) ''PROTO_VERSION_NUMBER''" for c
    by (simp add: env0_defs)
  have b1: "N_REQUEST_TYPES \<le> unat (command (rx_message
              (datagram0 from_loopback4 (request0 54)\<lparr>recv_status := 30\<rparr>)))
          \<or> nat (recv_status (datagram0 from_loopback4 (request0 54)\<lparr>recv_status := 30\<rparr>))
            < PKL_CommandLength (pkl env0) (rx_message
              (datagram0 from_loopback4 (request0 54)\<lparr>recv_status := 30\<rparr>))"
    by (simp add: env0_defs N_REQUEST_TYPES_def)
  have b2: "N_REQUEST_TYPES \<le> unat (command (rx_message
              (datagram0 from_loopback4 (request0 REQ_TRACKING)\<lparr>recv_status := 30\<rparr>)))
          \<or> nat (recv_status
               (datagram0 from_loopback4 (request0 REQ_TRACKING)\<lparr>recv_status := 30\<rparr>))
            < PKL_CommandLength (pkl env0) (rx_message
              (datagram0 from_loopback4 (request0 REQ_TRACKING)\<lparr>recv_status := 30\<rparr>))"
    by (simp add: env0_defs N_REQUEST_TYPES_def)
  show ?thesis
    using bad_command_or_length [OF a loopback_header r v b1]
      bad_command_or_length [OF a loopback_header r v b2]
    by (simp add: template_reply_def remote_ip_of_def reply_to_def env0_defs REQ_defs
        N_REQUEST_TYPES_def INADDR_LOOPBACK_def)
qed

text \<open>
  Claim C5, as amended. The dispatcher fills in the template of the reply: the command
  and the sequence number of the request, the status \<^verbatim>\<open>STT_SUCCESS\<close> and the reply type
  \<^verbatim>\<open>RPY_NULL\<close>. For a request that passes the validation it calls at most one handler:
  the handler of the command, on the template, when the check of authority allows the
  command and the switch has a handler for it, and none when the command is not allowed,
  which gets the status \<^verbatim>\<open>STT_UNAUTH\<close>. Unless an assertion stops the process, exactly
  one reply is then sent. And no datagram at all makes the module send more than one reply.
\<close>
theorem valid_packet_one_reply:
  assumes "passes_validation E S tbl sock_fd dg localhost"
    and "recognized (where_from dg)"
  shows "status (template_reply E (rx_message dg)) = STT_SUCCESS \<and>
         reply (template_reply E (rx_message dg)) = RPY_NULL \<and>
         reply_command (template_reply E (rx_message dg)) = command (rx_message dg) \<and>
         reply_sequence (template_reply E (rx_message dg)) = sequence (rx_message dg) \<and>
         length (invoked (read_from_cmd_socket E S tbl sock_fd dg)) \<le> 1 \<and>
         (\<not> aborted (read_from_cmd_socket E S tbl sock_fd dg) \<longrightarrow>
            length (sent (read_from_cmd_socket E S tbl sock_fd dg)) = 1) \<and>
         (check_authority S sock_fd (where_from dg) localhost
              (unat (command (rx_message dg))) = Goes True \<longrightarrow>
            map_of switch_rx_command (unat (command (rx_message dg)))
              = Some (Handler name handle) \<longrightarrow>
            invoked (read_from_cmd_socket E S tbl sock_fd dg) = [name] \<and>
            called (read_from_cmd_socket E S tbl sock_fd dg)
              = calls (handle E (rx_message dg) (h0 E tbl dg)) \<and>
            sent (read_from_cmd_socket E S tbl sock_fd dg)
              = (if failed_assert (handle E (rx_message dg) (h0 E tbl dg)) then []
                 else [reply_to E S dg (tx_message (handle E (rx_message dg) (h0 E tbl dg)))])) \<and>
         (check_authority S sock_fd (where_from dg) localhost
              (unat (command (rx_message dg))) = Goes False \<longrightarrow>
            invoked (read_from_cmd_socket E S tbl sock_fd dg) = [] \<and>
            sent (read_from_cmd_socket E S tbl sock_fd dg)
              = [reply_to E S dg ((template_reply E (rx_message dg))\<lparr>status := STT_UNAUTH\<rparr>)]) \<and>
         length (sent (read_from_cmd_socket E' S' tbl' sock_fd' dg')) \<le> 1"
proof -
  let ?c = "unat (command (rx_message dg))"
  let ?out = "CLG_LogCommandAccess (remote_ip_of E dg) CLG_CMD_NORMAL
                (tv_sec (fst (SCH_GetLastEventTime (clk E)))) (out0 tbl)"
  have c: "?c < N_REQUEST_TYPES"
    using assms(1) by (simp add: passes_validation_def)
  have o: "sent ?out = []" "invoked ?out = []" "\<not> aborted ?out" "table ?out = tbl"
    "called ?out = []"
    by (simp_all add: CLG_LogCommandAccess_def out0_def)
  have t: "status (template_reply E (rx_message dg)) = STT_SUCCESS \<and>
         reply (template_reply E (rx_message dg)) = RPY_NULL \<and>
         reply_command (template_reply E (rx_message dg)) = command (rx_message dg) \<and>
         reply_sequence (template_reply E (rx_message dg)) = sequence (rx_message dg)"
    by (simp add: template_reply_def)
  have h: "invoked (read_from_cmd_socket E S tbl sock_fd dg) = [name] \<and>
            called (read_from_cmd_socket E S tbl sock_fd dg)
              = calls (handle E (rx_message dg) (h0 E tbl dg)) \<and>
            sent (read_from_cmd_socket E S tbl sock_fd dg)
              = (if failed_assert (handle E (rx_message dg) (h0 E tbl dg)) then []
                 else [reply_to E S dg (tx_message (handle E (rx_message dg) (h0 E tbl dg)))])"
    if "check_authority S sock_fd (where_from dg) localhost ?c = Goes True"
      and "map_of switch_rx_command ?c = Some (Handler name handle)"
    unfolding read_valid [OF assms(1)] run_command_allowed [OF c that assms(2)]
    by (simp add: Let_def o)
  have d: "invoked (read_from_cmd_socket E S tbl sock_fd dg) = [] \<and>
            sent (read_from_cmd_socket E S tbl sock_fd dg)
              = [reply_to E S dg ((template_reply E (rx_message dg))\<lparr>status := STT_UNAUTH\<rparr>)]"
    if "check_authority S sock_fd (where_from dg) localhost ?c = Goes False"
    unfolding read_valid [OF assms(1)]
    using that c assms(2)
    by (simp add: run_command_def Let_def do_it_def transmit_recognized o tx_status_def)
  show ?thesis
    using t h d sent_read_le [of E' S' tbl' sock_fd' dg']
      run_command_shape [OF assms(2) o(1,2,3), of E S sock_fd localhost ?c
        "template_reply E (rx_message dg)"]
    unfolding read_valid [OF assms(1)]
    by blast
qed



text \<open>
  The claim as it was stated fails: a \<^verbatim>\<open>REQ_DUMP\<close> from the IPv4 loopback address passes the
  validation, and no handler is called for it.
\<close>
theorem pipeline_without_handler_counterexample:
  "passes_validation env0 sockets0 [] 3 (datagram0 from_loopback4 (request0 REQ_DUMP)) True \<and>
   length (invoked (read_from_cmd_socket env0 sockets0 [] 3
                      (datagram0 from_loopback4 (request0 REQ_DUMP)))) \<noteq> 1"
  by (simp add: passes_validation_def passes_access_def header_sane_def remote_ip_of_def
      dispatch_defs env0_defs REQ_defs)

lemma loopback_n_sources_valid:
  "passes_validation env0 sockets0 [] 3
     (datagram0 from_loopback4 (request0 REQ_N_SOURCES)) True"
  by (simp add: passes_validation_def passes_access_def header_sane_def remote_ip_of_def
      check_localhost_def INADDR_LOOPBACK_def N_REQUEST_TYPES_def env0_defs REQ_defs)

theorem valid_packet_one_reply_witness:
  "invoked (read_from_cmd_socket env0 sockets0 [] 3
              (datagram0 from_loopback4 (request0 REQ_N_SOURCES))) = [''handle_n_sources''] \<and>
   called (read_from_cmd_socket env0 sockets0 [] 3
              (datagram0 from_loopback4 (request0 REQ_N_SOURCES)))
     = [(''SRC_ReadNumberOfSources'', [])] \<and>
   sent (read_from_cmd_socket env0 sockets0 [] 3
              (datagram0 from_loopback4 (request0 REQ_N_SOURCES))) =
     [(3, from_loopback4,
       \<lparr>reply_version = 6, reply_pkt_type = 2, reply_res1 = 0, reply_res2 = 0,
        reply_command = 14, reply = RPY_N_SOURCES, status = STT_SUCCESS, pad1 = 0, pad2 = 0,
        pad3 = 0, reply_sequence = 7, pad4 = 0, pad5 = 0,
        reply_data = [Fld ''n_sources.n_sources'' \<mapsto> V32 1]\<rparr>,
       28)]"
proof -
  let ?dg = "datagram0 from_loopback4 (request0 REQ_N_SOURCES)"
  have r: "recognized (where_from ?dg)"
    by (simp add: recognized_def datagram0_def from_loopback4_def)
  have a: "check_authority sockets0 3 (where_from ?dg) True (unat (command (rx_message ?dg)))
             = Goes True"
    by (simp add: check_authority_def permissions_def env0_defs REQ_defs)
  have m: "map_of (switch_rx_command :: (nat \<times> (IPAddr list) switch_case) list)
             (unat (command (rx_message ?dg)))
             = Some (Handler ''handle_n_sources'' handle_n_sources)"
    by (simp add: switch_rx_command_def env0_defs REQ_defs)
  from valid_packet_one_reply [OF loopback_n_sources_valid r,
         where name = "''handle_n_sources''" and handle = handle_n_sources
           and E' = env0 and S' = sockets0 and tbl' = "[]" and sock_fd' = 3 and dg' = ?dg]
  have "invoked (read_from_cmd_socket env0 sockets0 [] 3 ?dg) = [''handle_n_sources''] \<and>
        called (read_from_cmd_socket env0 sockets0 [] 3 ?dg)
          = calls (handle_n_sources env0 (rx_message ?dg) (h0 env0 [] ?dg)) \<and>
        sent (read_from_cmd_socket env0 sockets0 [] 3 ?dg)
          = (if failed_assert (handle_n_sources env0 (rx_message ?dg) (h0 env0 [] ?dg)) then []
             else [reply_to env0 sockets0 ?dg
                     (tx_message (handle_n_sources env0 (rx_message ?dg) (h0 env0 [] ?dg)))])"
    using a m by simp
  then show ?thesis
    by (simp add: handle_n_sources_def h0_def reply_to_def htonl_int_def dispatch_defs
        env0_defs REQ_defs)
qed

text \<open>
  Claim C6, as amended. The handler of \<^verbatim>\<open>REQ_CLIENT_ACCESSES_BY_INDEX\<close> clamps the
  requested count to \<^verbatim>\<open>MAX_CLIENT_ACCESSES\<close> and asks for that many indices from the first.
  (a) When the clamped count is not zero and the log is inactive, the first answer already
  being \<^verbatim>\<open>CLG_INACTIVE\<close>, the status is \<^verbatim>\<open>STT_INACTIVE\<close> after that one call, and neither
  \<^verbatim>\<open>next_index\<close> nor \<^verbatim>\<open>n_clients\<close> is written. (b) When every index of the page has a row
  or is too large, the status is left as it was, \<^verbatim>\<open>next_index\<close> is the first index plus the
  clamped count (in 32 bits), \<^verbatim>\<open>n_clients\<close> is the number of rows, \<^verbatim>\<open>n_indices\<close> is what the
  last call reported, and the rows are packed in the first slots in their order, the
  indices that are too large being skipped. (c) When the requested count is zero the
  reply is an empty page: no call, \<^verbatim>\<open>next_index\<close> the first index, \<^verbatim>\<open>n_clients\<close> zero.
  The witness is the example of the specification: from index 0 and for 8 clients, with
  rows at the indices 2 and 5 of 6, the reply has \<^verbatim>\<open>n_clients\<close> 2, \<^verbatim>\<open>next_index\<close> 8,
  \<^verbatim>\<open>n_indices\<close> 6 and the status \<^verbatim>\<open>STT_SUCCESS\<close>.
\<close>
theorem client_accesses_page:
  "(0 < page_count E rx \<longrightarrow>
    fst (CLG_GetClientAccessReportByIndex (clk E) (page_first E rx) (page_now E))
      = CLG_INACTIVE \<longrightarrow>
      status (tx_message (handle_client_accesses_by_index E rx h)) = STT_INACTIVE \<and>
      calls (handle_client_accesses_by_index E rx h)
        = calls h @ [queried (page_first E rx) (page_now E) 0] \<and>
      rd (handle_client_accesses_by_index E rx h)
         (Fld ''client_accesses_by_index.next_index'')
        = rd h (Fld ''client_accesses_by_index.next_index'') \<and>
      rd (handle_client_accesses_by_index E rx h)
         (Fld ''client_accesses_by_index.n_clients'')
        = rd h (Fld ''client_accesses_by_index.n_clients''))
   \<and>
   ((\<forall>i < page_count E rx. row_ok E (page_first E rx) (page_now E) i \<or>
                             row_skipped E (page_first E rx) (page_now E) i) \<longrightarrow>
      status (tx_message (handle_client_accesses_by_index E rx h)) = status (tx_message h) \<and>
      reply (tx_message (handle_client_accesses_by_index E rx h))
        = RPY_CLIENT_ACCESSES_BY_INDEX \<and>
      calls (handle_client_accesses_by_index E rx h)
        = calls h @ map (queried (page_first E rx) (page_now E)) [0..<page_count E rx] \<and>
      rd (handle_client_accesses_by_index E rx h)
         (Fld ''client_accesses_by_index.next_index'')
        = Some (V32 (page_first E rx + of_nat (page_count E rx))) \<and>
      rd (handle_client_accesses_by_index E rx h)
         (Fld ''client_accesses_by_index.n_clients'')
        = Some (V32 (of_nat (length (page_rows E rx)))) \<and>
      (0 < page_count E rx \<longrightarrow>
         rd (handle_client_accesses_by_index E rx h)
            (Fld ''client_accesses_by_index.n_indices'')
           = Some (V32 (snd (snd (CLG_GetClientAccessReportByIndex (clk E)
                 (page_first E rx + of_nat (page_count E rx - 1)) (page_now E)))))) \<and>
      (\<forall>k < length (page_rows E rx).
         packed E (handle_client_accesses_by_index E rx h) k
           (fst (snd (CLG_GetClientAccessReportByIndex (clk E)
              (page_first E rx + of_nat (page_rows E rx ! k)) (page_now E))))))
   \<and>
   (rx_u32 E rx ''client_accesses_by_index.n_indices'' = 0 \<longrightarrow>
      status (tx_message (handle_client_accesses_by_index E rx h)) = status (tx_message h) \<and>
      reply (tx_message (handle_client_accesses_by_index E rx h))
        = RPY_CLIENT_ACCESSES_BY_INDEX \<and>
      calls (handle_client_accesses_by_index E rx h) = calls h \<and>
      rd (handle_client_accesses_by_index E rx h)
         (Fld ''client_accesses_by_index.next_index'') = Some (V32 (page_first E rx)) \<and>
      rd (handle_client_accesses_by_index E rx h)
         (Fld ''client_accesses_by_index.n_clients'') = Some (V32 0))"
proof (intro conjI impI)
  let ?f = "page_first E rx" and ?t = "page_now E" and ?n = "page_count E rx"
  let ?h = "tx_reply RPY_CLIENT_ACCESSES_BY_INDEX h"
  {
    assume n: "0 < ?n"
      and i: "fst (CLG_GetClientAccessReportByIndex (clk E) ?f ?t) = CLG_INACTIVE"
    obtain report nt where
      r: "CLG_GetClientAccessReportByIndex (clk E) (?f + of_nat 0) ?t = (CLG_INACTIVE, report, nt)"
      using i by (cases "CLG_GetClientAccessReportByIndex (clk E) ?f ?t") auto
    note e = handle_page [of E rx h] loop_inactive [OF n r, of 0 ?h]
    show "status (tx_message (handle_client_accesses_by_index E rx h)) = STT_INACTIVE"
      by (simp add: e hs_simps)
    show "calls (handle_client_accesses_by_index E rx h) = calls h @ [queried ?f ?t 0]"
      by (simp add: e hs_simps)
    show "rd (handle_client_accesses_by_index E rx h)
            (Fld ''client_accesses_by_index.next_index'')
          = rd h (Fld ''client_accesses_by_index.next_index'')"
      by (simp add: e rd_simps)
    show "rd (handle_client_accesses_by_index E rx h)
            (Fld ''client_accesses_by_index.n_clients'')
          = rd h (Fld ''client_accesses_by_index.n_clients'')"
      by (simp add: e rd_simps)
  }
  {
    assume "\<forall>i < ?n. row_ok E ?f ?t i \<or> row_skipped E ?f ?t i"
    then have a: "\<forall>i'. 0 \<le> i' \<and> i' < ?n \<longrightarrow> row_ok E ?f ?t i' \<or> row_skipped E ?f ?t i'"
      by simp
    note l = loop_active [OF a, of 0 ?h, simplified]
    show "status (tx_message (handle_client_accesses_by_index E rx h)) = status (tx_message h)"
      using l by (simp add: handle_page hs_simps)
    show "reply (tx_message (handle_client_accesses_by_index E rx h))
            = RPY_CLIENT_ACCESSES_BY_INDEX"
      using l by (simp add: handle_page hs_simps)
    show "calls (handle_client_accesses_by_index E rx h)
            = calls h @ map (queried ?f ?t) [0..<?n]"
      using l by (simp add: handle_page hs_simps)
    show "rd (handle_client_accesses_by_index E rx h)
            (Fld ''client_accesses_by_index.next_index'') = Some (V32 (?f + of_nat ?n))"
      using l by (simp add: handle_page)
    show "rd (handle_client_accesses_by_index E rx h)
            (Fld ''client_accesses_by_index.n_clients'')
          = Some (V32 (of_nat (length (page_rows E rx))))"
      using l by (simp add: handle_page page_rows_def)
    show "rd (handle_client_accesses_by_index E rx h)
            (Fld ''client_accesses_by_index.n_indices'')
          = Some (V32 (snd (snd (CLG_GetClientAccessReportByIndex (clk E)
                 (?f + of_nat (?n - 1)) ?t))))" if "0 < ?n"
      using loop_n_indices [OF a that, of 0 ?h] by (simp add: handle_page)
    show "\<forall>k < length (page_rows E rx).
            packed E (handle_client_accesses_by_index E rx h) k
              (fst (snd (CLG_GetClientAccessReportByIndex (clk E)
                 (?f + of_nat (page_rows E rx ! k)) ?t)))"
      using loop_rows [OF a, of _ 0 ?h] by (simp add: handle_page page_rows_def)
  }
  {
    assume "rx_u32 E rx ''client_accesses_by_index.n_indices'' = 0"
    then have z: "?n = 0"
      by (simp add: page_count_def)
    note e = handle_page [of E rx h] z loop_done [of 0 0 E ?f ?t 0 ?h, simplified]
    show "status (tx_message (handle_client_accesses_by_index E rx h)) = status (tx_message h)"
      by (simp add: e hs_simps)
    show "reply (tx_message (handle_client_accesses_by_index E rx h))
            = RPY_CLIENT_ACCESSES_BY_INDEX"
      by (simp add: e hs_simps)
    show "calls (handle_client_accesses_by_index E rx h) = calls h"
      by (simp add: e hs_simps)
    show "rd (handle_client_accesses_by_index E rx h)
            (Fld ''client_accesses_by_index.next_index'') = Some (V32 ?f)"
      by (simp add: e rd_simps)
    show "rd (handle_client_accesses_by_index E rx h)
            (Fld ''client_accesses_by_index.n_clients'') = Some (V32 0)"
      by (simp add: e rd_simps)
  }
qed

theorem client_accesses_page_witness:
  "status (tx_message (handle_client_accesses_by_index env0 (page_request 8) (template0 8)))
     = STT_SUCCESS \<and>
   rd (handle_client_accesses_by_index env0 (page_request 8) (template0 8))
      (Fld ''client_accesses_by_index.n_clients'') = Some (V32 2) \<and>
   rd (handle_client_accesses_by_index env0 (page_request 8) (template0 8))
      (Fld ''client_accesses_by_index.next_index'') = Some (V32 8) \<and>
   rd (handle_client_accesses_by_index env0 (page_request 8) (template0 8))
      (Fld ''client_accesses_by_index.n_indices'') = Some (V32 6) \<and>
   packed env0 (handle_client_accesses_by_index env0 (page_request 8) (template0 8)) 0
     client_report0 \<and>
   packed env0 (handle_client_accesses_by_index env0 (page_request 8) (template0 8)) 1
     client_report0"
proof -
  have a: "\<forall>i < page_count env0 (page_request 8).
             row_ok env0 (page_first env0 (page_request 8)) (page_now env0) i \<or>
             row_skipped env0 (page_first env0 (page_request 8)) (page_now env0) i"
    by (simp add: page_values env0_rows(2))
  have s: "status (tx_message (template0 8)) = STT_SUCCESS"
    by (simp add: template0_def h0_def template_reply_def)
  have k: "(\<forall>k < Suc (Suc 0). P k) \<longleftrightarrow> P 0 \<and> P (Suc 0)" for P
    by (auto simp add: less_Suc_eq)
  from client_accesses_page [of env0 "page_request 8" "template0 8"] a s show ?thesis
    by (simp add: page_values page_rows_8 env0_values k)
qed


text \<open>
  The claim as it was stated fails twice: for a requested count of 9 from index 0 the
  reply has \<^verbatim>\<open>next_index\<close> 8, not 9; and for a requested count of 0 on an inactive log
  the status is \<^verbatim>\<open>STT_SUCCESS\<close>, not \<^verbatim>\<open>STT_INACTIVE\<close>.
\<close>
theorem client_accesses_page_counterexample:
  "rx_u32 env0 (page_request 9) ''client_accesses_by_index.first_index'' = 0 \<and>
   rx_u32 env0 (page_request 9) ''client_accesses_by_index.n_indices'' = 9 \<and>
   rd (handle_client_accesses_by_index env0 (page_request 9) (template0 9))
      (Fld ''client_accesses_by_index.next_index'') = Some (V32 8) \<and>
   rx_u32 env_inactive (page_request 0) ''client_accesses_by_index.n_indices'' = 0 \<and>
   fst (CLG_GetClientAccessReportByIndex (clk env_inactive) 0 100) = CLG_INACTIVE \<and>
   status (tx_message (handle_client_accesses_by_index env_inactive (page_request 0)
             (template0 0))) = STT_SUCCESS"
proof -
  have a: "\<forall>i'. 0 \<le> i' \<and> i' < 8 \<longrightarrow> row_ok env0 0 100 i' \<or> row_skipped env0 0 100 i'"
    by (simp add: env0_rows(2))
  have s: "status (tx_message (template0 0)) = STT_SUCCESS"
    by (simp add: template0_def h0_def template_reply_def)
  have f: "rx_u32 env0 (page_request 9) ''client_accesses_by_index.first_index'' = 0"
    "rx_u32 env0 (page_request 9) ''client_accesses_by_index.n_indices'' = 9"
    "rx_u32 env_inactive (page_request 0) ''client_accesses_by_index.n_indices'' = 0"
    by (simp_all add: rx_u32_def env0_values env_inactive_values ntohl_at_def page_request_def)
  show ?thesis
    using loop_active [OF a, of 0 "tx_reply RPY_CLIENT_ACCESSES_BY_INDEX (template0 9)"] s f
    by (simp add: handle_page page_values loop_done hs_simps env_inactive_values)
qed

lemma unix_page_valid:
  "passes_validation env_inactive sockets0 [] 5 (datagram0 from_unix (page_request 2)) True"
  by (simp add: passes_validation_def passes_access_def header_sane_def remote_ip_of_def
      check_localhost_def N_REQUEST_TYPES_def env_inactive_def env0_defs page_request_def
      REQ_defs)


text \<open>
  Claim C7. The handlers keep the reply type \<^verbatim>\<open>RPY_NULL\<close> when they set a status of
  failure, but for one: \<^verbatim>\<open>handle_client_accesses_by_index\<close> sets the reply type before its
  loop, and returns from the loop when the log of clients is inactive. A request for a
  page of two clients, from the Unix domain socket, while the log is inactive, is
  answered with the status \<^verbatim>\<open>STT_INACTIVE\<close> and the reply type
  \<^verbatim>\<open>RPY_CLIENT_ACCESSES_BY_INDEX\<close>.
\<close>
theorem inactive_page_reply:
  "sent (read_from_cmd_socket env_inactive sockets0 [] 5
           (datagram0 from_unix (page_request 2))) =
     [(5, from_unix,
       \<lparr>reply_version = 6, reply_pkt_type = 2, reply_res1 = 0, reply_res2 = 0,
        reply_command = 40, reply = RPY_CLIENT_ACCESSES_BY_INDEX, status = STT_INACTIVE,
        pad1 = 0, pad2 = 0, pad3 = 0, reply_sequence = 7, pad4 = 0, pad5 = 0,
        reply_data = [Fld ''client_accesses_by_index.n_indices'' \<mapsto> V32 0]\<rparr>,
       28)]"
proof -
  let ?dg = "datagram0 from_unix (page_request 2)"
  have c: "unat (command (rx_message ?dg)) < N_REQUEST_TYPES"
    using unix_page_valid by (simp add: passes_validation_def)
  have a: "check_authority sockets0 5 (where_from ?dg) True (unat (command (rx_message ?dg)))
             = Goes True"
    by (simp add: check_authority_def env0_defs)
  have m: "map_of (switch_rx_command :: (nat \<times> (IPAddr list) switch_case) list)
             (unat (command (rx_message ?dg)))
             = Some (Handler ''handle_client_accesses_by_index''
                       handle_client_accesses_by_index)"
    by (simp add: switch_rx_command_def env0_defs page_request_def REQ_defs)
  have r: "recognized (where_from ?dg)"
    by (simp add: recognized_def datagram0_def from_unix_def)
  have q: "CLG_GetClientAccessReportByIndex (clk env_inactive)
             (page_first env_inactive (page_request 2) + of_nat 0) (page_now env_inactive)
           = (CLG_INACTIVE, client_report0, 0)"
    by (simp add: env_inactive_values)
  have n: "0 < page_count env_inactive (page_request 2)"
    by (simp add: page_values)
  have e: "rx_message ?dg = page_request 2"
    by (simp add: datagram0_def)
  have h: "handle_client_accesses_by_index env_inactive (page_request 2)
             (h0 env_inactive [] ?dg) =
           tx_status STT_INACTIVE
             (tx_store (Fld ''client_accesses_by_index.n_indices'') (V32 0)
                (call ''CLG_GetClientAccessReportByIndex'' [A32 0, AInt 100]
                   (tx_reply RPY_CLIENT_ACCESSES_BY_INDEX (h0 env_inactive [] ?dg))))"
    using loop_inactive [OF n q, of 0
        "tx_reply RPY_CLIENT_ACCESSES_BY_INDEX (h0 env_inactive [] ?dg)"]
    by (simp add: handle_page queried_def page_values)
  note R = read_valid [OF unix_page_valid, unfolded run_command_allowed [OF c a m r],
      unfolded e table_logged table_out0, unfolded h Let_def]
  show ?thesis
    unfolding R
    by (simp add: CLG_LogCommandAccess_def out0_def reply_to_def h0_def
        template_reply_def tx_status_def tx_store_def call_def tx_reply_def
        env_inactive_def env0_defs page_request_def REQ_defs)
qed


theorem inactive_page_reply_witness:
  "map (\<lambda>(fd, to, msg, len). (reply msg, status msg))
     (sent (read_from_cmd_socket env_inactive sockets0 [] 5
              (datagram0 from_unix (page_request 2))))
   = [(RPY_CLIENT_ACCESSES_BY_INDEX, STT_INACTIVE)]"
  using inactive_page_reply by simp








end
